theory Spec2Isabelle
  imports Main
begin

section \<open>Data model\<close>

text \<open>
  The module \<^verbatim>\<open>blog/views.py\<close> works on three tables: communities, news and resources.
  A row is modelled by the attributes the views read or the forms write: the primary key,
  the slug, and for a post its title, content and the two foreign keys (stored, as in the
  database, as the primary key of the row they point to). News and Resource have the same
  shape, so both are rows of type \<open>post\<close>, kept in two separate tables.
\<close>

record community =
  community_pk :: nat
  community_slug :: string

record user =
  user_pk :: nat
  is_authenticated :: bool
  is_superuser :: bool
  object_perms :: "(string \<times> nat) list"

record post =
  post_pk :: nat
  post_slug :: string
  post_title :: string
  post_content :: string
  post_community :: nat
  post_author :: nat

record database =
  communities :: "community list"
  news :: "post list"
  resources :: "post list"

subsection \<open>Requests\<close>

text \<open>
  A request carries its HTTP method, \<^verbatim>\<open>request.user\<close> (an anonymous visitor is a user
  whose \<open>is_authenticated\<close> is false), the keyword arguments captured from the URL
  (\<^verbatim>\<open>self.kwargs\<close>), the \<^verbatim>\<open>page\<close> query parameter and the submitted form data.
  The methods modelled are GET and POST, the two the module's pages and forms issue.
\<close>

datatype http_method = GET | POST

datatype page_param = PageNumber int | PageLast | PageInvalid

record form_data =
  data_slug :: string
  data_title :: string
  data_content :: string

record request =
  request_method :: http_method
  request_user :: user
  kwargs :: "string \<rightharpoonup> string"
  GET_page :: "page_param option"
  POST_data :: form_data

subsection \<open>Errors and responses\<close>

text \<open>
  An exception that leaves a view is a value \<open>Inl e\<close>. \<open>Http404\<close> and \<open>PermissionDenied\<close>
  are the two the framework turns into the 404 and 403 responses.
\<close>

datatype error =
  Http404 | PermissionDenied | MultipleObjectsReturned | KeyError | AttributeError
  | ValueError

text \<open>
  The URL configuration is not part of the module, so a reversed URL is kept symbolic:
  the name of the URL pattern and the keyword arguments, in the order the source writes them.
\<close>

datatype url = Url string "(string \<times> string) list"

definition reverse :: "string \<Rightarrow> (string \<times> string) list \<Rightarrow> url" where
  "reverse viewname kw = Url viewname kw"

record page_obj =
  page_number :: int
  page_object_list :: "post list"
  page_num_pages :: nat

record form =
  form_bound :: "form_data option"
  form_initial :: "post option"

datatype context_value =
  CommunityV community
  | PostV post
  | PostListV "post list"
  | StrV string
  | BoolV bool
  | PaginatorV "post list" nat
  | PageV page_obj
  | FormV form

type_synonym context_data = "string \<rightharpoonup> context_value"

datatype response =
  TemplateResponse string context_data
  | HttpResponseRedirect url
  | HttpResponseNotAllowed
  | RedirectToLogin

type_synonym outcome = "(error + response) \<times> database"

text \<open>What a view rendered under a context key; nothing when it did not render a template.\<close>

fun rendered :: "outcome \<Rightarrow> string \<Rightarrow> context_value option" where
  "rendered (Inr (TemplateResponse t ctx), db) k = ctx k"
| "rendered other k = None"

section \<open>The framework, as the views use it\<close>

subsection \<open>Object lookup\<close>

text \<open>
  \<^verbatim>\<open>get_object_or_404(Model, slug=s)\<close> is \<^verbatim>\<open>Model.objects.get(slug=s)\<close> with
  \<^verbatim>\<open>DoesNotExist\<close> turned into \<^verbatim>\<open>Http404\<close>; more than one match raises
  \<^verbatim>\<open>MultipleObjectsReturned\<close>.
\<close>

definition get_object_or_404 :: "('a \<Rightarrow> string) \<Rightarrow> 'a list \<Rightarrow> string \<Rightarrow> error + 'a" where
  "get_object_or_404 slug_of objects s =
     (case filter (\<lambda>x. slug_of x = s) objects of
        [] \<Rightarrow> Inl Http404
      | [x] \<Rightarrow> Inr x
      | x # y # zs \<Rightarrow> Inl MultipleObjectsReturned)"

text \<open>
  \<^verbatim>\<open>SingleObjectMixin.get_object(queryset)\<close>: the slug is read from the URL keyword
  argument named by \<^verbatim>\<open>slug_url_kwarg\<close> (\<^verbatim>\<open>AttributeError\<close> when the URL has none),
  and the queryset is searched for it.
\<close>

definition get_object ::
  "('a \<Rightarrow> string) \<Rightarrow> 'a list \<Rightarrow> string \<Rightarrow> request \<Rightarrow> error + 'a" where
  "get_object slug_of queryset slug_url_kwarg req =
     (case kwargs req slug_url_kwarg of
        None \<Rightarrow> Inl AttributeError
      | Some s \<Rightarrow> get_object_or_404 slug_of queryset s)"

subsection \<open>Pagination\<close>

text \<open>
  \<^verbatim>\<open>Paginator(object_list, per_page)\<close> with the defaults of \<^verbatim>\<open>MultipleObjectMixin\<close>
  (no orphans, an empty first page allowed).
\<close>

definition num_pages :: "'a list \<Rightarrow> nat \<Rightarrow> nat" where
  "num_pages object_list per_page =
     (let hits = max 1 (length object_list) in (hits + per_page - 1) div per_page)"

definition Paginator_page :: "post list \<Rightarrow> nat \<Rightarrow> int \<Rightarrow> page_obj option" where
  "Paginator_page object_list per_page number =
     (if number < 1 then None
      else if number > int (num_pages object_list per_page) \<and> number \<noteq> 1 then None
      else
        (let bottom = (nat number - 1) * per_page;
             top = bottom + per_page;
             top = (if top \<ge> length object_list then length object_list else top)
         in Some \<lparr>page_number = number,
                  page_object_list = take (top - bottom) (drop bottom object_list),
                  page_num_pages = num_pages object_list per_page\<rparr>))"

text \<open>
  \<^verbatim>\<open>MultipleObjectMixin.paginate_queryset\<close>: the page defaults to 1, \<^verbatim>\<open>last\<close> is the
  last page, anything else that is not a number and every page out of range is a 404.
\<close>

definition paginate_queryset :: "post list \<Rightarrow> nat \<Rightarrow> request \<Rightarrow> error + page_obj" where
  "paginate_queryset queryset page_size req =
     (case (case GET_page req of
              None \<Rightarrow> Some 1
            | Some (PageNumber n) \<Rightarrow> Some n
            | Some PageLast \<Rightarrow> Some (int (num_pages queryset page_size))
            | Some PageInvalid \<Rightarrow> None) of
        None \<Rightarrow> Inl Http404
      | Some number \<Rightarrow>
          (case Paginator_page queryset page_size number of
             None \<Rightarrow> Inl Http404
           | Some p \<Rightarrow> Inr p))"

text \<open>
  The context \<^verbatim>\<open>MultipleObjectMixin.get_context_data\<close> builds for a paginated list.
\<close>

definition MultipleObjectMixin_get_context_data ::
  "post list \<Rightarrow> nat \<Rightarrow> page_obj \<Rightarrow> context_data" where
  "MultipleObjectMixin_get_context_data queryset page_size p =
     [''paginator'' \<mapsto> PaginatorV queryset page_size,
      ''page_obj'' \<mapsto> PageV p,
      ''is_paginated'' \<mapsto> BoolV (1 < page_number p \<or> page_number p < int (page_num_pages p)),
      ''object_list'' \<mapsto> PostListV (page_object_list p)]"

section \<open>Read-only views\<close>

text \<open>
  \<^verbatim>\<open>UserDetailsMixin\<close> and \<^verbatim>\<open>CommunityMenuMixin\<close> are defined outside the module. In the
  chain of \<^verbatim>\<open>get_context_data\<close> calls they stand between the view and the framework, so
  whatever entries they add go on top of the framework's and below the view's own. Their
  entries are the parameter \<open>mixin_ctx\<close>, a function of the view's \<^verbatim>\<open>page_slug\<close>
  attribute, which \<^verbatim>\<open>CommunityMenuMixin\<close> reads.
\<close>

subsection \<open>CommunityNewsListView\<close>

definition CommunityNewsListView_page_slug :: string where
  "CommunityNewsListView_page_slug = ''news''"

definition CommunityNewsListView_paginate_by :: nat where
  "CommunityNewsListView_paginate_by = 5"

definition CommunityNewsListView_get_queryset :: "database \<Rightarrow> community \<Rightarrow> post list" where
  "CommunityNewsListView_get_queryset db object =
     filter (\<lambda>n. post_community n = community_pk object) (news db)"

definition CommunityNewsListView_get_context_data ::
  "context_data \<Rightarrow> community \<Rightarrow> context_data" where
  "CommunityNewsListView_get_context_data super_ctx object =
     super_ctx(''community'' \<mapsto> CommunityV object, ''post_type'' \<mapsto> StrV ''news'')"

definition CommunityNewsListView_get ::
  "(string \<Rightarrow> context_data) \<Rightarrow> database \<Rightarrow> request \<Rightarrow> error + response" where
  "CommunityNewsListView_get mixin_ctx db req =
     (case get_object community_slug (communities db) ''slug'' req of
        Inl e \<Rightarrow> Inl e
      | Inr object \<Rightarrow>
          (let object_list = CommunityNewsListView_get_queryset db object in
           case paginate_queryset object_list CommunityNewsListView_paginate_by req of
             Inl e \<Rightarrow> Inl e
           | Inr p \<Rightarrow>
               Inr (TemplateResponse ''blog/post_list.html''
                 (CommunityNewsListView_get_context_data
                    ((MultipleObjectMixin_get_context_data object_list
                        CommunityNewsListView_paginate_by p)(''object'' \<mapsto> CommunityV object)
                     ++ mixin_ctx CommunityNewsListView_page_slug)
                    object))))"

definition CommunityNewsListView :: "(string \<Rightarrow> context_data) \<Rightarrow> database \<Rightarrow> request \<Rightarrow> outcome" where
  "CommunityNewsListView mixin_ctx db req =
     (case request_method req of
        GET \<Rightarrow> (CommunityNewsListView_get mixin_ctx db req, db)
      | POST \<Rightarrow> (Inr HttpResponseNotAllowed, db))"

subsection \<open>CommunityResourceListView\<close>

definition CommunityResourceListView_page_slug :: string where
  "CommunityResourceListView_page_slug = ''resources''"

definition CommunityResourceListView_paginate_by :: nat where
  "CommunityResourceListView_paginate_by = 5"

definition CommunityResourceListView_get_queryset :: "database \<Rightarrow> community \<Rightarrow> post list" where
  "CommunityResourceListView_get_queryset db object =
     filter (\<lambda>r. post_community r = community_pk object) (resources db)"

definition CommunityResourceListView_get_context_data ::
  "context_data \<Rightarrow> community \<Rightarrow> context_data" where
  "CommunityResourceListView_get_context_data super_ctx object =
     super_ctx(''community'' \<mapsto> CommunityV object, ''post_type'' \<mapsto> StrV ''resource'')"

definition CommunityResourceListView_get ::
  "(string \<Rightarrow> context_data) \<Rightarrow> database \<Rightarrow> request \<Rightarrow> error + response" where
  "CommunityResourceListView_get mixin_ctx db req =
     (case get_object community_slug (communities db) ''slug'' req of
        Inl e \<Rightarrow> Inl e
      | Inr object \<Rightarrow>
          (let object_list = CommunityResourceListView_get_queryset db object in
           case paginate_queryset object_list CommunityResourceListView_paginate_by req of
             Inl e \<Rightarrow> Inl e
           | Inr p \<Rightarrow>
               Inr (TemplateResponse ''blog/post_list.html''
                 (CommunityResourceListView_get_context_data
                    ((MultipleObjectMixin_get_context_data object_list
                        CommunityResourceListView_paginate_by p)(''object'' \<mapsto> CommunityV object)
                     ++ mixin_ctx CommunityResourceListView_page_slug)
                    object))))"

definition CommunityResourceListView :: "(string \<Rightarrow> context_data) \<Rightarrow> database \<Rightarrow> request \<Rightarrow> outcome" where
  "CommunityResourceListView mixin_ctx db req =
     (case request_method req of
        GET \<Rightarrow> (CommunityResourceListView_get mixin_ctx db req, db)
      | POST \<Rightarrow> (Inr HttpResponseNotAllowed, db))"

subsection \<open>CommunityNewsView\<close>

text \<open>
  A \<^verbatim>\<open>DetailView\<close> whose model is Community: the framework fetches the community named
  by the URL's \<^verbatim>\<open>slug\<close> and puts it in the context as \<^verbatim>\<open>object\<close> and \<^verbatim>\<open>community\<close>;
  the view's own \<^verbatim>\<open>get_context_data\<close> then fetches the post.
\<close>

definition CommunityNewsView_page_slug :: string where
  "CommunityNewsView_page_slug = ''news''"

definition CommunityNewsView_get_context_data ::
  "context_data \<Rightarrow> database \<Rightarrow> request \<Rightarrow> community \<Rightarrow> error + context_data" where
  "CommunityNewsView_get_context_data super_ctx db req object =
     (let ctx = super_ctx(''community'' \<mapsto> CommunityV object) in
      case kwargs req ''news_slug'' of
        None \<Rightarrow> Inl KeyError
      | Some news_slug \<Rightarrow>
          (case get_object_or_404 post_slug (news db) news_slug of
             Inl e \<Rightarrow> Inl e
           | Inr n \<Rightarrow> Inr (ctx(''post'' \<mapsto> PostV n, ''post_type'' \<mapsto> StrV ''news''))))"

definition CommunityNewsView_get ::
  "(string \<Rightarrow> context_data) \<Rightarrow> database \<Rightarrow> request \<Rightarrow> error + response" where
  "CommunityNewsView_get mixin_ctx db req =
     (case get_object community_slug (communities db) ''slug'' req of
        Inl e \<Rightarrow> Inl e
      | Inr object \<Rightarrow>
          (case CommunityNewsView_get_context_data
                  ([''object'' \<mapsto> CommunityV object, ''community'' \<mapsto> CommunityV object]
                   ++ mixin_ctx CommunityNewsView_page_slug) db req object of
             Inl e \<Rightarrow> Inl e
           | Inr ctx \<Rightarrow> Inr (TemplateResponse ''blog/post.html'' ctx)))"

definition CommunityNewsView :: "(string \<Rightarrow> context_data) \<Rightarrow> database \<Rightarrow> request \<Rightarrow> outcome" where
  "CommunityNewsView mixin_ctx db req =
     (case request_method req of
        GET \<Rightarrow> (CommunityNewsView_get mixin_ctx db req, db)
      | POST \<Rightarrow> (Inr HttpResponseNotAllowed, db))"

subsection \<open>CommunityResourceView\<close>

definition CommunityResourceView_page_slug :: string where
  "CommunityResourceView_page_slug = ''resources''"

definition CommunityResourceView_get_context_data ::
  "context_data \<Rightarrow> database \<Rightarrow> request \<Rightarrow> community \<Rightarrow> error + context_data" where
  "CommunityResourceView_get_context_data super_ctx db req object =
     (let ctx = super_ctx(''community'' \<mapsto> CommunityV object) in
      case kwargs req ''resource_slug'' of
        None \<Rightarrow> Inl KeyError
      | Some resource_slug \<Rightarrow>
          (case get_object_or_404 post_slug (resources db) resource_slug of
             Inl e \<Rightarrow> Inl e
           | Inr r \<Rightarrow> Inr (ctx(''post'' \<mapsto> PostV r, ''post_type'' \<mapsto> StrV ''resource''))))"

definition CommunityResourceView_get ::
  "(string \<Rightarrow> context_data) \<Rightarrow> database \<Rightarrow> request \<Rightarrow> error + response" where
  "CommunityResourceView_get mixin_ctx db req =
     (case get_object community_slug (communities db) ''slug'' req of
        Inl e \<Rightarrow> Inl e
      | Inr object \<Rightarrow>
          (case CommunityResourceView_get_context_data
                  ([''object'' \<mapsto> CommunityV object, ''community'' \<mapsto> CommunityV object]
                   ++ mixin_ctx CommunityResourceView_page_slug) db req object of
             Inl e \<Rightarrow> Inl e
           | Inr ctx \<Rightarrow> Inr (TemplateResponse ''blog/post.html'' ctx)))"

definition CommunityResourceView :: "(string \<Rightarrow> context_data) \<Rightarrow> database \<Rightarrow> request \<Rightarrow> outcome" where
  "CommunityResourceView mixin_ctx db req =
     (case request_method req of
        GET \<Rightarrow> (CommunityResourceView_get mixin_ctx db req, db)
      | POST \<Rightarrow> (Inr HttpResponseNotAllowed, db))"

section \<open>Access control and forms\<close>

subsection \<open>The access mixins\<close>

text \<open>
  \<^verbatim>\<open>LoginRequiredMixin\<close> stands first among the bases of every mutating view, so its
  \<^verbatim>\<open>dispatch\<close> runs first: a visitor who is not authenticated is turned away (with
  \<^verbatim>\<open>PermissionDenied\<close> when \<^verbatim>\<open>raise_exception\<close> is set, to the login page otherwise)
  and nothing below it runs.
\<close>

definition LoginRequiredMixin_dispatch ::
  "bool \<Rightarrow> (database \<Rightarrow> request \<Rightarrow> outcome) \<Rightarrow> database \<Rightarrow> request \<Rightarrow> outcome" where
  "LoginRequiredMixin_dispatch raise_exception super_dispatch db req =
     (if \<not> is_authenticated (request_user req) then
        (if raise_exception then (Inl PermissionDenied, db) else (Inr RedirectToLogin, db))
      else super_dispatch db req)"

text \<open>
  \<^verbatim>\<open>PermissionRequiredMixin.dispatch\<close> calls the view's \<^verbatim>\<open>check_permissions\<close>, refuses when it
  answers false and hands over to the generic view otherwise. \<^verbatim>\<open>check_permissions\<close> stores
  the community in \<^verbatim>\<open>self.community\<close>; here it returns it with its answer, and the
  generic view below receives it.
\<close>

definition PermissionRequiredMixin_dispatch ::
  "bool \<Rightarrow> (database \<Rightarrow> request \<Rightarrow> error + community \<times> bool) \<Rightarrow>
   (community \<Rightarrow> database \<Rightarrow> request \<Rightarrow> outcome) \<Rightarrow> database \<Rightarrow> request \<Rightarrow> outcome" where
  "PermissionRequiredMixin_dispatch raise_exception check_permissions super_dispatch db req =
     (case check_permissions db req of
        Inl e \<Rightarrow> (Inl e, db)
      | Inr (self_community, has_permission) \<Rightarrow>
          (if \<not> has_permission then
             (if raise_exception then (Inl PermissionDenied, db) else (Inr RedirectToLogin, db))
           else super_dispatch self_community db req))"

text \<open>
  Modelled from the spec: \<^verbatim>\<open>User.has_perm(perm, obj)\<close> belongs to the framework's
  authorization layer, which is outside the module. The spec's glossary and the docstrings
  of \<^verbatim>\<open>check_permissions\<close> say the check is true unconditionally for superusers; for
  everybody else it is looked up among the object permissions the user holds (permission
  string and community).
\<close>

definition has_perm :: "user \<Rightarrow> string \<Rightarrow> community \<Rightarrow> bool" where
  "has_perm u perm obj =
     (is_superuser u \<or> (perm, community_pk obj) \<in> set (object_perms u))"

subsection \<open>Form handling of the generic editing views\<close>

record form_kwargs =
  kw_data :: "form_data option"
  kw_instance :: "post option"
  kw_author :: "user option"
  kw_community :: "community option"

text \<open>
  \<^verbatim>\<open>ModelFormMixin.get_form_kwargs\<close>: the submitted data on POST, and the object being
  edited (none for a create view).
\<close>

definition ModelFormMixin_get_form_kwargs :: "request \<Rightarrow> post option \<Rightarrow> form_kwargs" where
  "ModelFormMixin_get_form_kwargs req object =
     \<lparr>kw_data = (case request_method req of GET \<Rightarrow> None | POST \<Rightarrow> Some (POST_data req)),
      kw_instance = object,
      kw_author = None,
      kw_community = None\<rparr>"

definition form_of :: "form_kwargs \<Rightarrow> form" where
  "form_of kw = \<lparr>form_bound = kw_data kw, form_initial = kw_instance kw\<rparr>"

text \<open>
  \<^verbatim>\<open>CreateView\<close>: GET renders the empty form; POST builds the form from
  \<^verbatim>\<open>get_form_kwargs\<close>, and if it is valid saves it, keeps the saved object as
  \<^verbatim>\<open>self.object\<close> and redirects to \<^verbatim>\<open>get_success_url\<close>; an invalid form is rendered again.
  The hooks the view overrides are the arguments.
\<close>

definition CreateView_dispatch ::
  "string \<Rightarrow> (database \<Rightarrow> form_kwargs \<Rightarrow> bool) \<Rightarrow>
   (database \<Rightarrow> form_kwargs \<Rightarrow> error + post \<times> database) \<Rightarrow>
   (request \<Rightarrow> form_kwargs) \<Rightarrow> (post \<Rightarrow> url) \<Rightarrow> (context_data \<Rightarrow> context_data) \<Rightarrow>
   database \<Rightarrow> request \<Rightarrow> outcome" where
  "CreateView_dispatch template_name is_valid save get_form_kwargs get_success_url
     get_context_data db req =
     (let kw = get_form_kwargs req in
      case request_method req of
        GET \<Rightarrow>
          (Inr (TemplateResponse template_name
             (get_context_data [''form'' \<mapsto> FormV (form_of kw)])), db)
      | POST \<Rightarrow>
          (if is_valid db kw then
             (case save db kw of
                Inl e \<Rightarrow> (Inl e, db)
              | Inr (object, db') \<Rightarrow> (Inr (HttpResponseRedirect (get_success_url object)), db'))
           else
             (Inr (TemplateResponse template_name
                (get_context_data [''form'' \<mapsto> FormV (form_of kw)])), db)))"

text \<open>
  \<^verbatim>\<open>UpdateView\<close>: the object is fetched from the model's table by the URL keyword argument
  \<^verbatim>\<open>slug_url_kwarg\<close> first, for GET and POST alike; the form is bound to it.
\<close>

definition UpdateView_dispatch ::
  "string \<Rightarrow> (database \<Rightarrow> post list) \<Rightarrow> string \<Rightarrow> string \<Rightarrow>
   (database \<Rightarrow> form_kwargs \<Rightarrow> bool) \<Rightarrow>
   (database \<Rightarrow> form_kwargs \<Rightarrow> error + post \<times> database) \<Rightarrow>
   (request \<Rightarrow> post \<Rightarrow> form_kwargs) \<Rightarrow> (post \<Rightarrow> url) \<Rightarrow> (context_data \<Rightarrow> context_data) \<Rightarrow>
   database \<Rightarrow> request \<Rightarrow> outcome" where
  "UpdateView_dispatch template_name model_objects model_name slug_url_kwarg is_valid save
     get_form_kwargs get_success_url get_context_data db req =
     (case get_object post_slug (model_objects db) slug_url_kwarg req of
        Inl e \<Rightarrow> (Inl e, db)
      | Inr object \<Rightarrow>
          (let kw = get_form_kwargs req object;
               ctx = [''form'' \<mapsto> FormV (form_of kw), ''object'' \<mapsto> PostV object,
                      model_name \<mapsto> PostV object]
           in case request_method req of
                GET \<Rightarrow> (Inr (TemplateResponse template_name (get_context_data ctx)), db)
              | POST \<Rightarrow>
                  (if is_valid db kw then
                     (case save db kw of
                        Inl e \<Rightarrow> (Inl e, db)
                      | Inr (saved, db') \<Rightarrow>
                          (Inr (HttpResponseRedirect (get_success_url saved)), db'))
                   else (Inr (TemplateResponse template_name (get_context_data ctx)), db))))"

text \<open>
  \<^verbatim>\<open>DeleteView\<close>: GET renders the confirmation page for the fetched object; POST computes
  the success URL, deletes the object and redirects.
\<close>

definition DeleteView_dispatch ::
  "string \<Rightarrow> (database \<Rightarrow> post list) \<Rightarrow> (post \<Rightarrow> database \<Rightarrow> database) \<Rightarrow> string \<Rightarrow>
   string \<Rightarrow> url \<Rightarrow> (context_data \<Rightarrow> context_data) \<Rightarrow> database \<Rightarrow> request \<Rightarrow> outcome" where
  "DeleteView_dispatch template_name model_objects model_delete model_name slug_url_kwarg
     success_url get_context_data db req =
     (case get_object post_slug (model_objects db) slug_url_kwarg req of
        Inl e \<Rightarrow> (Inl e, db)
      | Inr object \<Rightarrow>
          (case request_method req of
             GET \<Rightarrow>
               (Inr (TemplateResponse template_name
                  (get_context_data [''object'' \<mapsto> PostV object, model_name \<mapsto> PostV object])),
                db)
           | POST \<Rightarrow> (Inr (HttpResponseRedirect success_url), model_delete object db)))"

text \<open>Deleting a row of the news table: the row with that primary key goes.\<close>

definition News_delete :: "post \<Rightarrow> database \<Rightarrow> database" where
  "News_delete object db = db\<lparr>news := filter (\<lambda>n. post_pk n \<noteq> post_pk object) (news db)\<rparr>"

subsection \<open>The forms of blog.forms\<close>

text \<open>
  Whether a submission validates is decided by the form classes and the model's field
  declarations, neither of which is part of the module. Each view therefore takes the
  validation of its form as the parameter \<open>valid\<close>; an unbound form is never valid.
\<close>

definition form_is_valid ::
  "(database \<Rightarrow> form_kwargs \<Rightarrow> bool) \<Rightarrow> database \<Rightarrow> form_kwargs \<Rightarrow> bool" where
  "form_is_valid valid db kw = (case kw_data kw of None \<Rightarrow> False | Some d \<Rightarrow> valid db kw)"

definition new_pk :: "post list \<Rightarrow> nat" where
  "new_pk rows = Suc (fold max (map post_pk rows) 0)"

text \<open>
  Modelled from the spec: \<^verbatim>\<open>AddNewsForm.save\<close> (in \<^verbatim>\<open>blog/forms.py\<close>, not part of the
  module). The spec has the submitted form data bound to a new record with the community and
  the author filled in automatically: the form receives both as keyword arguments from
  \<^verbatim>\<open>get_form_kwargs\<close> and writes them into the new row, whose other fields come from the
  submitted data.
\<close>

definition AddNewsForm_save :: "database \<Rightarrow> form_kwargs \<Rightarrow> error + post \<times> database" where
  "AddNewsForm_save db kw =
     (case (kw_author kw, kw_community kw) of
        (Some author, Some community) \<Rightarrow>
          (case kw_data kw of
             None \<Rightarrow> Inl ValueError
           | Some d \<Rightarrow>
               (let object = \<lparr>post_pk = new_pk (news db), post_slug = data_slug d,
                              post_title = data_title d, post_content = data_content d,
                              post_community = community_pk community,
                              post_author = user_pk author\<rparr>
                in Inr (object, db\<lparr>news := news db @ [object]\<rparr>)))
      | other \<Rightarrow> Inl KeyError)"

text \<open>
  Modelled from the spec: \<^verbatim>\<open>AddResourceForm.save\<close>, the same for the resources table.
\<close>

definition AddResourceForm_save :: "database \<Rightarrow> form_kwargs \<Rightarrow> error + post \<times> database" where
  "AddResourceForm_save db kw =
     (case (kw_author kw, kw_community kw) of
        (Some author, Some community) \<Rightarrow>
          (case kw_data kw of
             None \<Rightarrow> Inl ValueError
           | Some d \<Rightarrow>
               (let object = \<lparr>post_pk = new_pk (resources db), post_slug = data_slug d,
                              post_title = data_title d, post_content = data_content d,
                              post_community = community_pk community,
                              post_author = user_pk author\<rparr>
                in Inr (object, db\<lparr>resources := resources db @ [object]\<rparr>)))
      | other \<Rightarrow> Inl KeyError)"

text \<open>
  Modelled from the spec: \<^verbatim>\<open>EditNewsForm.save\<close>. \<^verbatim>\<open>EditCommunityNewsView\<close> does not
  override \<^verbatim>\<open>get_form_kwargs\<close>, so the form is built from the submitted data and the
  existing record alone: it binds the data to that record, whose other fields stay as they
  are, and the row with its primary key is replaced.
\<close>

definition EditNewsForm_save :: "database \<Rightarrow> form_kwargs \<Rightarrow> error + post \<times> database" where
  "EditNewsForm_save db kw =
     (case (kw_data kw, kw_instance kw) of
        (Some d, Some old) \<Rightarrow>
          (let object = old\<lparr>post_slug := data_slug d, post_title := data_title d,
                            post_content := data_content d\<rparr>
           in Inr (object,
                db\<lparr>news := map (\<lambda>n. if post_pk n = post_pk old then object else n) (news db)\<rparr>))
      | other \<Rightarrow> Inl ValueError)"

section \<open>Mutating views\<close>

text \<open>
  Every mutating view lists its bases as \<^verbatim>\<open>LoginRequiredMixin, PermissionRequiredMixin\<close>
  and the generic view, and sets \<^verbatim>\<open>raise_exception = True\<close>.
\<close>

subsection \<open>AddCommunityNewsView\<close>

definition AddCommunityNewsView_get_success_url :: "community \<Rightarrow> post \<Rightarrow> url" where
  "AddCommunityNewsView_get_success_url self_community object =
     reverse ''view_community_news''
       [(''slug'', community_slug self_community), (''news_slug'', post_slug object)]"

definition AddCommunityNewsView_get_context_data ::
  "community \<Rightarrow> context_data \<Rightarrow> context_data" where
  "AddCommunityNewsView_get_context_data self_community super_ctx =
     super_ctx(''community'' \<mapsto> CommunityV self_community, ''post_type'' \<mapsto> StrV ''news'')"

definition AddCommunityNewsView_get_form_kwargs :: "community \<Rightarrow> request \<Rightarrow> form_kwargs" where
  "AddCommunityNewsView_get_form_kwargs self_community req =
     (ModelFormMixin_get_form_kwargs req None)
       \<lparr>kw_author := Some (request_user req), kw_community := Some self_community\<rparr>"

definition AddCommunityNewsView_check_permissions ::
  "database \<Rightarrow> request \<Rightarrow> error + community \<times> bool" where
  "AddCommunityNewsView_check_permissions db req =
     (case kwargs req ''slug'' of
        None \<Rightarrow> Inl KeyError
      | Some s \<Rightarrow>
          (case get_object_or_404 community_slug (communities db) s of
             Inl e \<Rightarrow> Inl e
           | Inr self_community \<Rightarrow>
               Inr (self_community,
                    has_perm (request_user req) ''add_community_news'' self_community)))"

definition AddCommunityNewsView ::
  "(database \<Rightarrow> form_kwargs \<Rightarrow> bool) \<Rightarrow> database \<Rightarrow> request \<Rightarrow> outcome" where
  "AddCommunityNewsView valid =
     LoginRequiredMixin_dispatch True
       (PermissionRequiredMixin_dispatch True AddCommunityNewsView_check_permissions
          (\<lambda>self_community.
             CreateView_dispatch ''blog/add_post.html'' (form_is_valid valid) AddNewsForm_save
               (AddCommunityNewsView_get_form_kwargs self_community)
               (AddCommunityNewsView_get_success_url self_community)
               (AddCommunityNewsView_get_context_data self_community)))"

subsection \<open>EditCommunityNewsView\<close>

definition EditCommunityNewsView_get_success_url :: "community \<Rightarrow> post \<Rightarrow> url" where
  "EditCommunityNewsView_get_success_url self_community object =
     reverse ''view_community_news''
       [(''slug'', community_slug self_community), (''news_slug'', post_slug object)]"

definition EditCommunityNewsView_get_context_data ::
  "community \<Rightarrow> context_data \<Rightarrow> context_data" where
  "EditCommunityNewsView_get_context_data self_community super_ctx =
     super_ctx(''community'' \<mapsto> CommunityV self_community)"

definition EditCommunityNewsView_check_permissions ::
  "database \<Rightarrow> request \<Rightarrow> error + community \<times> bool" where
  "EditCommunityNewsView_check_permissions db req =
     (case kwargs req ''slug'' of
        None \<Rightarrow> Inl KeyError
      | Some s \<Rightarrow>
          (case get_object_or_404 community_slug (communities db) s of
             Inl e \<Rightarrow> Inl e
           | Inr self_community \<Rightarrow>
               Inr (self_community,
                    has_perm (request_user req) ''change_community_news'' self_community)))"

definition EditCommunityNewsView ::
  "(database \<Rightarrow> form_kwargs \<Rightarrow> bool) \<Rightarrow> database \<Rightarrow> request \<Rightarrow> outcome" where
  "EditCommunityNewsView valid =
     LoginRequiredMixin_dispatch True
       (PermissionRequiredMixin_dispatch True EditCommunityNewsView_check_permissions
          (\<lambda>self_community.
             UpdateView_dispatch ''blog/edit_post.html'' news ''news'' ''news_slug''
               (form_is_valid valid) EditNewsForm_save
               (\<lambda>req object. ModelFormMixin_get_form_kwargs req (Some object))
               (EditCommunityNewsView_get_success_url self_community)
               (EditCommunityNewsView_get_context_data self_community)))"

subsection \<open>DeleteCommunityNewsView\<close>

definition DeleteCommunityNewsView_get_success_url :: "community \<Rightarrow> url" where
  "DeleteCommunityNewsView_get_success_url self_community =
     reverse ''view_community_news_list'' [(''slug'', community_slug self_community)]"

definition DeleteCommunityNewsView_get_context_data ::
  "community \<Rightarrow> context_data \<Rightarrow> context_data" where
  "DeleteCommunityNewsView_get_context_data self_community super_ctx =
     super_ctx(''community'' \<mapsto> CommunityV self_community, ''post_type'' \<mapsto> StrV ''news'')"

definition DeleteCommunityNewsView_check_permissions ::
  "database \<Rightarrow> request \<Rightarrow> error + community \<times> bool" where
  "DeleteCommunityNewsView_check_permissions db req =
     (case kwargs req ''slug'' of
        None \<Rightarrow> Inl KeyError
      | Some s \<Rightarrow>
          (case get_object_or_404 community_slug (communities db) s of
             Inl e \<Rightarrow> Inl e
           | Inr self_community \<Rightarrow>
               Inr (self_community,
                    has_perm (request_user req) ''delete_community_news'' self_community)))"

definition DeleteCommunityNewsView :: "database \<Rightarrow> request \<Rightarrow> outcome" where
  "DeleteCommunityNewsView =
     LoginRequiredMixin_dispatch True
       (PermissionRequiredMixin_dispatch True DeleteCommunityNewsView_check_permissions
          (\<lambda>self_community.
             DeleteView_dispatch ''blog/post_confirm_delete.html'' news News_delete ''news''
               ''news_slug''
               (DeleteCommunityNewsView_get_success_url self_community)
               (DeleteCommunityNewsView_get_context_data self_community)))"

subsection \<open>AddCommunityResourceView\<close>

definition AddCommunityResourceView_get_success_url :: "community \<Rightarrow> post \<Rightarrow> url" where
  "AddCommunityResourceView_get_success_url self_community object =
     reverse ''view_community_resource''
       [(''slug'', community_slug self_community), (''resource_slug'', post_slug object)]"

definition AddCommunityResourceView_get_context_data ::
  "community \<Rightarrow> context_data \<Rightarrow> context_data" where
  "AddCommunityResourceView_get_context_data self_community super_ctx =
     super_ctx(''community'' \<mapsto> CommunityV self_community, ''post_type'' \<mapsto> StrV ''resource'')"

definition AddCommunityResourceView_get_form_kwargs ::
  "community \<Rightarrow> request \<Rightarrow> form_kwargs" where
  "AddCommunityResourceView_get_form_kwargs self_community req =
     (ModelFormMixin_get_form_kwargs req None)
       \<lparr>kw_author := Some (request_user req), kw_community := Some self_community\<rparr>"

definition AddCommunityResourceView_check_permissions ::
  "database \<Rightarrow> request \<Rightarrow> error + community \<times> bool" where
  "AddCommunityResourceView_check_permissions db req =
     (case kwargs req ''slug'' of
        None \<Rightarrow> Inl KeyError
      | Some s \<Rightarrow>
          (case get_object_or_404 community_slug (communities db) s of
             Inl e \<Rightarrow> Inl e
           | Inr self_community \<Rightarrow>
               Inr (self_community,
                    has_perm (request_user req) ''add_community_resource'' self_community)))"

definition AddCommunityResourceView ::
  "(database \<Rightarrow> form_kwargs \<Rightarrow> bool) \<Rightarrow> database \<Rightarrow> request \<Rightarrow> outcome" where
  "AddCommunityResourceView valid =
     LoginRequiredMixin_dispatch True
       (PermissionRequiredMixin_dispatch True AddCommunityResourceView_check_permissions
          (\<lambda>self_community.
             CreateView_dispatch ''blog/add_post.html'' (form_is_valid valid)
               AddResourceForm_save
               (AddCommunityResourceView_get_form_kwargs self_community)
               (AddCommunityResourceView_get_success_url self_community)
               (AddCommunityResourceView_get_context_data self_community)))"

section \<open>The views of the module\<close>

text \<open>
  The eight view classes the module declares, each with the generic view it is built on and
  the post model it works with.
\<close>

datatype generic_view = ListView | DetailView | CreateView | UpdateView | DeleteView

datatype post_model = News | Resource

datatype view_class =
  CommunityNewsListView_class
  | CommunityNewsView_class
  | AddCommunityNewsView_class
  | EditCommunityNewsView_class
  | DeleteCommunityNewsView_class
  | CommunityResourceListView_class
  | CommunityResourceView_class
  | AddCommunityResourceView_class

definition module_views :: "view_class list" where
  "module_views =
     [CommunityNewsListView_class, CommunityNewsView_class, AddCommunityNewsView_class,
      EditCommunityNewsView_class, DeleteCommunityNewsView_class,
      CommunityResourceListView_class, CommunityResourceView_class,
      AddCommunityResourceView_class]"

fun generic_base :: "view_class \<Rightarrow> generic_view" where
  "generic_base CommunityNewsListView_class = ListView"
| "generic_base CommunityNewsView_class = DetailView"
| "generic_base AddCommunityNewsView_class = CreateView"
| "generic_base EditCommunityNewsView_class = UpdateView"
| "generic_base DeleteCommunityNewsView_class = DeleteView"
| "generic_base CommunityResourceListView_class = ListView"
| "generic_base CommunityResourceView_class = DetailView"
| "generic_base AddCommunityResourceView_class = CreateView"

fun post_model_of :: "view_class \<Rightarrow> post_model" where
  "post_model_of CommunityNewsListView_class = News"
| "post_model_of CommunityNewsView_class = News"
| "post_model_of AddCommunityNewsView_class = News"
| "post_model_of EditCommunityNewsView_class = News"
| "post_model_of DeleteCommunityNewsView_class = News"
| "post_model_of CommunityResourceListView_class = Resource"
| "post_model_of CommunityResourceView_class = Resource"
| "post_model_of AddCommunityResourceView_class = Resource"

definition provides :: "generic_view \<Rightarrow> post_model \<Rightarrow> bool" where
  "provides g m = list_ex (\<lambda>v. generic_base v = g \<and> post_model_of v = m) module_views"

section \<open>One view per operation, for either post type\<close>

text \<open>
  The spec describes News and Resource as two parallel post types that differ only by model
  and by the template context variable \<^verbatim>\<open>post_type\<close>. The definitions below follow that
  description: one list view, one detail view and one create view, each written once and
  parametrised by what tells the two post types apart. They are not taken from the source;
  they are what the views of the module are compared with.
\<close>

record post_kind =
  kind_objects :: "database \<Rightarrow> post list"
  kind_post_type :: string
  kind_page_slug :: string
  kind_slug_kwarg :: string
  kind_permission :: string
  kind_url_name :: string
  kind_save :: "database \<Rightarrow> form_kwargs \<Rightarrow> error + post \<times> database"

definition news_kind :: post_kind where
  "news_kind =
     \<lparr>kind_objects = news, kind_post_type = ''news'', kind_page_slug = ''news'',
      kind_slug_kwarg = ''news_slug'',
      kind_permission = ''add_community_news'', kind_url_name = ''view_community_news'',
      kind_save = AddNewsForm_save\<rparr>"

definition resource_kind :: post_kind where
  "resource_kind =
     \<lparr>kind_objects = resources, kind_post_type = ''resource'',
      kind_page_slug = ''resources'',
      kind_slug_kwarg = ''resource_slug'', kind_permission = ''add_community_resource'',
      kind_url_name = ''view_community_resource'', kind_save = AddResourceForm_save\<rparr>"

definition PostListView ::
  "post_kind \<Rightarrow> (string \<Rightarrow> context_data) \<Rightarrow> database \<Rightarrow> request \<Rightarrow> outcome" where
  "PostListView kind mixin_ctx db req =
     (case request_method req of
        GET \<Rightarrow>
          ((case get_object community_slug (communities db) ''slug'' req of
              Inl e \<Rightarrow> Inl e
            | Inr object \<Rightarrow>
                (let object_list =
                       filter (\<lambda>p. post_community p = community_pk object) (kind_objects kind db)
                 in case paginate_queryset object_list 5 req of
                      Inl e \<Rightarrow> Inl e
                    | Inr p \<Rightarrow>
                        Inr (TemplateResponse ''blog/post_list.html''
                          (((MultipleObjectMixin_get_context_data object_list 5 p)
                              (''object'' \<mapsto> CommunityV object)
                            ++ mixin_ctx (kind_page_slug kind))
                             (''community'' \<mapsto> CommunityV object,
                              ''post_type'' \<mapsto> StrV (kind_post_type kind)))))), db)
      | POST \<Rightarrow> (Inr HttpResponseNotAllowed, db))"

definition PostDetailView ::
  "post_kind \<Rightarrow> (string \<Rightarrow> context_data) \<Rightarrow> database \<Rightarrow> request \<Rightarrow> outcome" where
  "PostDetailView kind mixin_ctx db req =
     (case request_method req of
        GET \<Rightarrow>
          ((case get_object community_slug (communities db) ''slug'' req of
              Inl e \<Rightarrow> Inl e
            | Inr object \<Rightarrow>
                (case kwargs req (kind_slug_kwarg kind) of
                   None \<Rightarrow> Inl KeyError
                 | Some s \<Rightarrow>
                     (case get_object_or_404 post_slug (kind_objects kind db) s of
                        Inl e \<Rightarrow> Inl e
                      | Inr p \<Rightarrow>
                          Inr (TemplateResponse ''blog/post.html''
                            (([''object'' \<mapsto> CommunityV object,
                               ''community'' \<mapsto> CommunityV object]
                              ++ mixin_ctx (kind_page_slug kind))
                               (''community'' \<mapsto> CommunityV object, ''post'' \<mapsto> PostV p,
                                ''post_type'' \<mapsto> StrV (kind_post_type kind))))))), db)
      | POST \<Rightarrow> (Inr HttpResponseNotAllowed, db))"

definition AddPostView ::
  "post_kind \<Rightarrow> (database \<Rightarrow> form_kwargs \<Rightarrow> bool) \<Rightarrow> database \<Rightarrow> request \<Rightarrow> outcome" where
  "AddPostView kind valid =
     LoginRequiredMixin_dispatch True
       (PermissionRequiredMixin_dispatch True
          (\<lambda>db req.
             case kwargs req ''slug'' of
               None \<Rightarrow> Inl KeyError
             | Some s \<Rightarrow>
                 (case get_object_or_404 community_slug (communities db) s of
                    Inl e \<Rightarrow> Inl e
                  | Inr c \<Rightarrow> Inr (c, has_perm (request_user req) (kind_permission kind) c)))
          (\<lambda>c.
             CreateView_dispatch ''blog/add_post.html'' (form_is_valid valid) (kind_save kind)
               (\<lambda>req. (ModelFormMixin_get_form_kwargs req None)
                        \<lparr>kw_author := Some (request_user req), kw_community := Some c\<rparr>)
               (\<lambda>object. reverse (kind_url_name kind)
                            [(''slug'', community_slug c),
                             (kind_slug_kwarg kind, post_slug object)])
               (\<lambda>super_ctx. super_ctx(''community'' \<mapsto> CommunityV c,
                                        ''post_type'' \<mapsto> StrV (kind_post_type kind)))))"

section \<open>Example data\<close>

text \<open>
  Two communities with a news post and a resource each, and four users: a superuser, a
  manager holding the four permissions on the first community, a member holding none, and
  an anonymous visitor.
\<close>

definition community_a :: community where
  "community_a = \<lparr>community_pk = 1, community_slug = ''systers''\<rparr>"

definition community_b :: community where
  "community_b = \<lparr>community_pk = 2, community_slug = ''outreach''\<rparr>"

definition news_a :: post where
  "news_a = \<lparr>post_pk = 1, post_slug = ''welcome'', post_title = ''Welcome'',
             post_content = ''Hello'', post_community = 1, post_author = 7\<rparr>"

definition news_b :: post where
  "news_b = \<lparr>post_pk = 2, post_slug = ''meetup'', post_title = ''Meetup'',
             post_content = ''Friday'', post_community = 2, post_author = 7\<rparr>"

definition resource_a :: post where
  "resource_a = \<lparr>post_pk = 1, post_slug = ''guide'', post_title = ''Guide'',
                 post_content = ''Read me'', post_community = 1, post_author = 7\<rparr>"

definition resource_b :: post where
  "resource_b = \<lparr>post_pk = 2, post_slug = ''faq'', post_title = ''FAQ'',
                 post_content = ''Answers'', post_community = 2, post_author = 7\<rparr>"

definition example_db :: database where
  "example_db = \<lparr>communities = [community_a, community_b], news = [news_a, news_b],
                  resources = [resource_a, resource_b]\<rparr>"

definition manager_perms :: "(string \<times> nat) list" where
  "manager_perms = [(''add_community_news'', 1), (''change_community_news'', 1),
                    (''delete_community_news'', 1), (''add_community_resource'', 1)]"

definition admin_user :: user where
  "admin_user = \<lparr>user_pk = 1, is_authenticated = True, is_superuser = True, object_perms = []\<rparr>"

definition manager_user :: user where
  "manager_user = \<lparr>user_pk = 8, is_authenticated = True, is_superuser = False,
                    object_perms = manager_perms\<rparr>"

definition member_user :: user where
  "member_user = \<lparr>user_pk = 9, is_authenticated = True, is_superuser = False,
                   object_perms = []\<rparr>"

definition anonymous_user :: user where
  "anonymous_user = \<lparr>user_pk = 0, is_authenticated = False, is_superuser = False,
                      object_perms = []\<rparr>"

definition submitted :: form_data where
  "submitted = \<lparr>data_slug = ''launch'', data_title = ''Launch'', data_content = ''Today''\<rparr>"

definition example_request ::
  "http_method \<Rightarrow> user \<Rightarrow> (string \<rightharpoonup> string) \<Rightarrow> request" where
  "example_request m u kw =
     \<lparr>request_method = m, request_user = u, kwargs = kw, GET_page = None,
      POST_data = submitted\<rparr>"

definition no_mixins :: "string \<Rightarrow> context_data" where
  "no_mixins page_slug = Map.empty"

definition always_valid :: "database \<Rightarrow> form_kwargs \<Rightarrow> bool" where
  "always_valid db kw = True"

definition numbered :: "nat \<Rightarrow> post" where
  "numbered i = news_a\<lparr>post_pk := i, post_slug := replicate i CHR ''x''\<rparr>"

definition busy_db :: database where
  "busy_db = \<lparr>communities = [community_a, community_b],
               news = map numbered [1, 2, 3, 4, 5, 6, 7],
               resources = map numbered [1, 2, 3, 4, 5, 6]\<rparr>"

text \<open>The news post a submission of \<open>submitted\<close> by the manager creates, and what an
  edit of \<open>news_a\<close> with the same submission leaves.\<close>

definition launched :: post where
  "launched = \<lparr>post_pk = 3, post_slug = ''launch'', post_title = ''Launch'',
               post_content = ''Today'', post_community = 1, post_author = 8\<rparr>"

definition edited :: post where
  "edited = news_a\<lparr>post_slug := ''launch'', post_title := ''Launch'',
                   post_content := ''Today''\<rparr>"

section \<open>Lookup and pagination\<close>

lemmas fixture_defs = community_a_def community_b_def news_a_def news_b_def resource_a_def
  resource_b_def example_db_def manager_perms_def admin_user_def manager_user_def
  member_user_def anonymous_user_def submitted_def example_request_def always_valid_def
  no_mixins_def

lemmas list_defs = CommunityNewsListView_def CommunityNewsListView_get_def
      CommunityNewsListView_get_context_data_def CommunityNewsListView_get_queryset_def
      CommunityNewsListView_paginate_by_def
      CommunityResourceListView_def CommunityResourceListView_get_def
      CommunityResourceListView_get_context_data_def CommunityResourceListView_get_queryset_def
      CommunityResourceListView_paginate_by_def MultipleObjectMixin_get_context_data_def
      CommunityNewsListView_page_slug_def CommunityResourceListView_page_slug_def

lemmas check_defs = AddCommunityNewsView_check_permissions_def
  EditCommunityNewsView_check_permissions_def DeleteCommunityNewsView_check_permissions_def
  AddCommunityResourceView_check_permissions_def

lemmas view_defs = AddCommunityNewsView_def EditCommunityNewsView_def
  DeleteCommunityNewsView_def AddCommunityResourceView_def

lemmas mixin_defs = LoginRequiredMixin_dispatch_def PermissionRequiredMixin_dispatch_def

lemma Paginator_page_length:
  "Paginator_page object_list per_page number = Some p \<Longrightarrow>
     length (page_object_list p) \<le> per_page"
  by (auto simp: Paginator_page_def Let_def split: if_splits)

lemma paginate_queryset_length:
  "paginate_queryset queryset page_size req = Inr p \<Longrightarrow>
     length (page_object_list p) \<le> page_size"
  by (auto simp: paginate_queryset_def split: option.splits dest: Paginator_page_length)

lemma get_object_or_404_Inr:
  "get_object_or_404 slug_of objects s = Inr x \<Longrightarrow>
     filter (\<lambda>y. slug_of y = s) objects = [x]"
  by (auto simp: get_object_or_404_def split: list.splits)

lemma get_object_or_404_member:
  "get_object_or_404 slug_of objects s = Inr x \<Longrightarrow> x \<in> set objects \<and> slug_of x = s"
proof -
  assume "get_object_or_404 slug_of objects s = Inr x"
  then have "filter (\<lambda>y. slug_of y = s) objects = [x]" by (rule get_object_or_404_Inr)
  then have "x \<in> set (filter (\<lambda>y. slug_of y = s) objects)" by simp
  then show ?thesis by simp
qed

lemma get_object_or_404_missing:
  "filter (\<lambda>y. slug_of y = s) objects = [] \<Longrightarrow> get_object_or_404 slug_of objects s = Inl Http404"
  by (simp add: get_object_or_404_def)

lemma rendered_Some:
  "rendered out k = Some v \<Longrightarrow> \<exists>t ctx db. out = (Inr (TemplateResponse t ctx), db) \<and> ctx k = Some v"
  by (cases "(out, k)" rule: rendered.cases) auto

lemmas read_defs = CommunityNewsListView_def CommunityNewsListView_get_def
        CommunityNewsView_def CommunityNewsView_get_def
        CommunityResourceListView_def CommunityResourceListView_get_def
        CommunityResourceView_def CommunityResourceView_get_def

lemmas form_defs = CreateView_dispatch_def UpdateView_dispatch_def DeleteView_dispatch_def
  form_is_valid_def ModelFormMixin_get_form_kwargs_def AddNewsForm_save_def
  AddResourceForm_save_def EditNewsForm_save_def
  AddCommunityNewsView_get_form_kwargs_def AddCommunityResourceView_get_form_kwargs_def

lemmas url_defs = AddCommunityNewsView_get_success_url_def
  EditCommunityNewsView_get_success_url_def DeleteCommunityNewsView_get_success_url_def
  AddCommunityResourceView_get_success_url_def

lemmas detail_defs = CommunityNewsView_def CommunityNewsView_get_def
  CommunityNewsView_get_context_data_def CommunityResourceView_def
  CommunityResourceView_get_def CommunityResourceView_get_context_data_def
  CommunityNewsView_page_slug_def CommunityResourceView_page_slug_def

lemmas kind_defs = news_kind_def resource_kind_def PostListView_def PostDetailView_def
  AddPostView_def

lemma check_permissions_missing:
  assumes "kwargs req ''slug'' = Some s"
    and "filter (\<lambda>c. community_slug c = s) (communities db) = []"
  shows "AddCommunityNewsView_check_permissions db req = Inl Http404"
    and "EditCommunityNewsView_check_permissions db req = Inl Http404"
    and "DeleteCommunityNewsView_check_permissions db req = Inl Http404"
    and "AddCommunityResourceView_check_permissions db req = Inl Http404"
  using assms by (simp_all add: check_defs get_object_or_404_missing)

lemma check_permissions_result:
  assumes "kwargs req ''slug'' = Some s"
  shows "AddCommunityNewsView_check_permissions db req = Inr (c, b) \<Longrightarrow>
           get_object_or_404 community_slug (communities db) s = Inr c \<and>
           b = has_perm (request_user req) ''add_community_news'' c"
    and "EditCommunityNewsView_check_permissions db req = Inr (c, b) \<Longrightarrow>
           get_object_or_404 community_slug (communities db) s = Inr c \<and>
           b = has_perm (request_user req) ''change_community_news'' c"
    and "DeleteCommunityNewsView_check_permissions db req = Inr (c, b) \<Longrightarrow>
           get_object_or_404 community_slug (communities db) s = Inr c \<and>
           b = has_perm (request_user req) ''delete_community_news'' c"
    and "AddCommunityResourceView_check_permissions db req = Inr (c, b) \<Longrightarrow>
           get_object_or_404 community_slug (communities db) s = Inr c \<and>
           b = has_perm (request_user req) ''add_community_resource'' c"
  using assms by (auto simp: check_defs split: sum.splits)

section \<open>The list views\<close>

text \<open>
  C8. When a list view renders for the community \<open>c\<close> that the URL's slug names, the
  paginator it hands to the template is built over exactly the rows of its table whose
  community foreign key is the primary key of \<open>c\<close>: the news list view over the news of
  \<open>c\<close>, the resource list view over the resources of \<open>c\<close>. (The entry is the
  framework's; the mixins defined outside the module are assumed not to replace it.)
\<close>

theorem list_views_queryset:
  assumes "get_object community_slug (communities db) ''slug'' req = Inr c"
    and "mixin_ctx CommunityNewsListView_page_slug ''paginator'' = None"
    and "mixin_ctx CommunityResourceListView_page_slug ''paginator'' = None"
  shows "(rendered (CommunityNewsListView mixin_ctx db req) ''paginator'' = Some v \<longrightarrow>
           (\<exists>qs. v = PaginatorV qs 5 \<and>
              set qs = {n \<in> set (news db). post_community n = community_pk c})) \<and>
         (rendered (CommunityResourceListView mixin_ctx db req) ''paginator'' = Some w \<longrightarrow>
           (\<exists>qs. w = PaginatorV qs 5 \<and>
              set qs = {r \<in> set (resources db). post_community r = community_pk c}))"
  using assms
  by (auto simp: list_defs map_add_def Let_def
      split: http_method.splits sum.splits option.splits if_splits)

theorem list_views_queryset_witness:
  "rendered (CommunityNewsListView no_mixins example_db
       (example_request GET anonymous_user [''slug'' \<mapsto> ''systers''])) ''paginator''
     = Some (PaginatorV [news_a] 5) \<and>
   set [news_a] = {n \<in> set (news example_db). post_community n = community_pk community_a} \<and>
   rendered (CommunityResourceListView no_mixins example_db
       (example_request GET anonymous_user [''slug'' \<mapsto> ''systers''])) ''paginator''
     = Some (PaginatorV [resource_a] 5) \<and>
   set [resource_a] =
     {r \<in> set (resources example_db). post_community r = community_pk community_a}"
proof -
  let ?req = "example_request GET anonymous_user [''slug'' \<mapsto> ''systers'']"
  have found: "get_object community_slug (communities example_db) ''slug'' ?req
                 = Inr community_a"
    by (simp add: get_object_def get_object_or_404_def fixture_defs)
  have n: "rendered (CommunityNewsListView no_mixins example_db ?req) ''paginator''
             = Some (PaginatorV [news_a] 5)"
    by (simp add: list_defs get_object_def get_object_or_404_def paginate_queryset_def
        Paginator_page_def num_pages_def fixture_defs Let_def)
  have r: "rendered (CommunityResourceListView no_mixins example_db ?req) ''paginator''
             = Some (PaginatorV [resource_a] 5)"
    by (simp add: list_defs get_object_def get_object_or_404_def paginate_queryset_def
        Paginator_page_def num_pages_def fixture_defs Let_def)
  have quiet: "no_mixins page_slug ''paginator'' = None" for page_slug
    by (simp add: no_mixins_def)
  from list_views_queryset [where mixin_ctx = no_mixins and v = "PaginatorV [news_a] 5"
      and w = "PaginatorV [resource_a] 5", OF found quiet quiet] n r
  show ?thesis by simp
qed


text \<open>
  C9. Whatever page is asked for, the list of posts a list view renders as
  \<^verbatim>\<open>object_list\<close> has at most five entries, for news and for resources alike.
\<close>

theorem list_views_page_size:
  assumes "mixin_ctx CommunityNewsListView_page_slug ''object_list'' = None"
    and "mixin_ctx CommunityResourceListView_page_slug ''object_list'' = None"
  shows "(rendered (CommunityNewsListView mixin_ctx db req) ''object_list'' = Some v \<longrightarrow>
           (\<exists>posts. v = PostListV posts \<and> length posts \<le> 5)) \<and>
         (rendered (CommunityResourceListView mixin_ctx db req) ''object_list'' = Some w \<longrightarrow>
           (\<exists>posts. w = PostListV posts \<and> length posts \<le> 5))"
  using assms
  by (auto simp: list_defs map_add_def Let_def
      split: http_method.splits sum.splits option.splits if_splits
      dest!: paginate_queryset_length)


theorem list_views_page_size_witness:
  "rendered (CommunityNewsListView no_mixins busy_db
       (example_request GET anonymous_user [''slug'' \<mapsto> ''systers''])) ''object_list''
     = Some (PostListV (map numbered [1, 2, 3, 4, 5])) \<and>
   rendered (CommunityResourceListView no_mixins busy_db
       (example_request GET anonymous_user [''slug'' \<mapsto> ''systers''])) ''object_list''
     = Some (PostListV (map numbered [1, 2, 3, 4, 5])) \<and>
   length (map numbered [1, 2, 3, 4, 5]) \<le> 5"
proof -
  let ?req = "example_request GET anonymous_user [''slug'' \<mapsto> ''systers'']"
  have n: "rendered (CommunityNewsListView no_mixins busy_db ?req) ''object_list''
             = Some (PostListV (map numbered [1, 2, 3, 4, 5]))"
    by (simp add: list_defs get_object_def get_object_or_404_def paginate_queryset_def
        Paginator_page_def num_pages_def fixture_defs busy_db_def numbered_def Let_def)
  have r: "rendered (CommunityResourceListView no_mixins busy_db ?req) ''object_list''
             = Some (PostListV (map numbered [1, 2, 3, 4, 5]))"
    by (simp add: list_defs get_object_def get_object_or_404_def paginate_queryset_def
        Paginator_page_def num_pages_def fixture_defs busy_db_def numbered_def Let_def)
  have quiet: "no_mixins page_slug ''object_list'' = None" for page_slug
    by (simp add: no_mixins_def)
  from list_views_page_size [where mixin_ctx = no_mixins and db = busy_db and req = ?req
      and v = "PostListV (map numbered [1, 2, 3, 4, 5])"
      and w = "PostListV (map numbered [1, 2, 3, 4, 5])", OF quiet quiet] n r
  show ?thesis by simp
qed

section \<open>Permissions\<close>

text \<open>
  C6. For a superuser and a community that the URL's slug names, \<^verbatim>\<open>check_permissions\<close>
  of each of the four mutating views finds that community and answers true.
\<close>

theorem superuser_passes_check:
  assumes "is_superuser (request_user req)"
    and "kwargs req ''slug'' = Some s"
    and "get_object_or_404 community_slug (communities db) s = Inr c"
  shows "AddCommunityNewsView_check_permissions db req = Inr (c, True) \<and>
         EditCommunityNewsView_check_permissions db req = Inr (c, True) \<and>
         DeleteCommunityNewsView_check_permissions db req = Inr (c, True) \<and>
         AddCommunityResourceView_check_permissions db req = Inr (c, True)"
  using assms by (simp add: check_defs has_perm_def)

theorem superuser_passes_check_witness:
  "is_superuser admin_user \<and>
   AddCommunityNewsView_check_permissions example_db
       (example_request POST admin_user [''slug'' \<mapsto> ''outreach'']) = Inr (community_b, True) \<and>
   EditCommunityNewsView_check_permissions example_db
       (example_request POST admin_user [''slug'' \<mapsto> ''outreach'']) = Inr (community_b, True) \<and>
   DeleteCommunityNewsView_check_permissions example_db
       (example_request POST admin_user [''slug'' \<mapsto> ''outreach'']) = Inr (community_b, True) \<and>
   AddCommunityResourceView_check_permissions example_db
       (example_request POST admin_user [''slug'' \<mapsto> ''outreach'']) = Inr (community_b, True)"
proof -
  let ?req = "example_request POST admin_user [''slug'' \<mapsto> ''outreach'']"
  have su: "is_superuser (request_user ?req)" by (simp add: fixture_defs)
  have kw: "kwargs ?req ''slug'' = Some ''outreach''" by (simp add: fixture_defs)
  have found: "get_object_or_404 community_slug (communities example_db) ''outreach''
                 = Inr community_b"
    by (simp add: get_object_or_404_def fixture_defs)
  from superuser_passes_check [OF su kw found] su show ?thesis by (simp add: fixture_defs)
qed

text \<open>
  C4. An authenticated user who lacks the view's permission string on the community of the
  URL gets \<^verbatim>\<open>PermissionDenied\<close> from the add, edit and delete news views and from the
  add resource view, whatever the method and the submitted data, and the database the view
  leaves behind is the one it found.
\<close>

theorem denied_without_permission:
  assumes "is_authenticated (request_user req)"
    and "kwargs req ''slug'' = Some s"
    and "get_object_or_404 community_slug (communities db) s = Inr c"
  shows "(\<not> has_perm (request_user req) ''add_community_news'' c \<longrightarrow>
            AddCommunityNewsView valid db req = (Inl PermissionDenied, db)) \<and>
         (\<not> has_perm (request_user req) ''change_community_news'' c \<longrightarrow>
            EditCommunityNewsView valid db req = (Inl PermissionDenied, db)) \<and>
         (\<not> has_perm (request_user req) ''delete_community_news'' c \<longrightarrow>
            DeleteCommunityNewsView db req = (Inl PermissionDenied, db)) \<and>
         (\<not> has_perm (request_user req) ''add_community_resource'' c \<longrightarrow>
            AddCommunityResourceView valid db req = (Inl PermissionDenied, db))"
  using assms by (simp add: view_defs mixin_defs check_defs)

theorem denied_without_permission_witness:
  "\<not> has_perm member_user ''add_community_news'' community_a \<and>
   \<not> has_perm member_user ''change_community_news'' community_a \<and>
   \<not> has_perm member_user ''delete_community_news'' community_a \<and>
   \<not> has_perm member_user ''add_community_resource'' community_a \<and>
   AddCommunityNewsView always_valid example_db
       (example_request POST member_user [''slug'' \<mapsto> ''systers''])
     = (Inl PermissionDenied, example_db) \<and>
   EditCommunityNewsView always_valid example_db
       (example_request POST member_user [''slug'' \<mapsto> ''systers'', ''news_slug'' \<mapsto> ''welcome''])
     = (Inl PermissionDenied, example_db) \<and>
   DeleteCommunityNewsView example_db
       (example_request POST member_user [''slug'' \<mapsto> ''systers'', ''news_slug'' \<mapsto> ''welcome''])
     = (Inl PermissionDenied, example_db) \<and>
   AddCommunityResourceView always_valid example_db
       (example_request POST member_user [''slug'' \<mapsto> ''systers''])
     = (Inl PermissionDenied, example_db)"
proof -
  let ?add = "example_request POST member_user [''slug'' \<mapsto> ''systers'']"
  let ?edit = "example_request POST member_user
                 [''slug'' \<mapsto> ''systers'', ''news_slug'' \<mapsto> ''welcome'']"
  have found: "get_object_or_404 community_slug (communities example_db) ''systers''
                 = Inr community_a"
    by (simp add: get_object_or_404_def fixture_defs)
  have none: "\<not> has_perm member_user p community_a" for p
    by (simp add: has_perm_def fixture_defs)
  have a: "is_authenticated (request_user ?add)" "kwargs ?add ''slug'' = Some ''systers''"
    by (simp_all add: fixture_defs)
  have e: "is_authenticated (request_user ?edit)" "kwargs ?edit ''slug'' = Some ''systers''"
    by (simp_all add: fixture_defs)
  have ua: "request_user ?add = member_user" and ue: "request_user ?edit = member_user"
    by (simp_all add: fixture_defs)
  from denied_without_permission [OF a found, of always_valid]
    denied_without_permission [OF e found, of always_valid] none
  show ?thesis by (simp add: ua ue)
qed

text \<open>
  C7. A successful POST (an authenticated user, permission granted, a valid form) is answered
  by a redirect: from the add and edit news views to \<^verbatim>\<open>view_community_news\<close> with the
  community's slug and the slug of the post the form saved, from the delete news view to
  \<^verbatim>\<open>view_community_news_list\<close> with the community's slug (the post being deleted), and
  from the add resource view to \<^verbatim>\<open>view_community_resource\<close> with the community's slug
  and the slug of the saved resource.
\<close>

theorem success_redirects:
  assumes "is_authenticated (request_user req)"
    and "request_method req = POST"
  shows "(AddCommunityNewsView_check_permissions db req = Inr (c, True) \<and>
          valid db (AddCommunityNewsView_get_form_kwargs c req) \<longrightarrow>
            (\<exists>object db'.
               AddNewsForm_save db (AddCommunityNewsView_get_form_kwargs c req)
                 = Inr (object, db') \<and>
               AddCommunityNewsView valid db req =
                 (Inr (HttpResponseRedirect (reverse ''view_community_news''
                    [(''slug'', community_slug c), (''news_slug'', post_slug object)])), db'))) \<and>
         (EditCommunityNewsView_check_permissions db req = Inr (c, True) \<and>
          get_object post_slug (news db) ''news_slug'' req = Inr old \<and>
          valid db (ModelFormMixin_get_form_kwargs req (Some old)) \<longrightarrow>
            (\<exists>saved db'.
               EditNewsForm_save db (ModelFormMixin_get_form_kwargs req (Some old))
                 = Inr (saved, db') \<and>
               EditCommunityNewsView valid db req =
                 (Inr (HttpResponseRedirect (reverse ''view_community_news''
                    [(''slug'', community_slug c), (''news_slug'', post_slug saved)])), db'))) \<and>
         (DeleteCommunityNewsView_check_permissions db req = Inr (c, True) \<and>
          get_object post_slug (news db) ''news_slug'' req = Inr old \<longrightarrow>
            DeleteCommunityNewsView db req =
              (Inr (HttpResponseRedirect (reverse ''view_community_news_list''
                 [(''slug'', community_slug c)])), News_delete old db)) \<and>
         (AddCommunityResourceView_check_permissions db req = Inr (c, True) \<and>
          valid db (AddCommunityResourceView_get_form_kwargs c req) \<longrightarrow>
            (\<exists>object db'.
               AddResourceForm_save db (AddCommunityResourceView_get_form_kwargs c req)
                 = Inr (object, db') \<and>
               AddCommunityResourceView valid db req =
                 (Inr (HttpResponseRedirect (reverse ''view_community_resource''
                    [(''slug'', community_slug c), (''resource_slug'', post_slug object)])),
                  db')))"
proof -
  have add_news: "AddCommunityNewsView_check_permissions db req = Inr (c, True) \<Longrightarrow>
          valid db (AddCommunityNewsView_get_form_kwargs c req) \<Longrightarrow>
            (\<exists>object db'.
               AddNewsForm_save db (AddCommunityNewsView_get_form_kwargs c req)
                 = Inr (object, db') \<and>
               AddCommunityNewsView valid db req =
                 (Inr (HttpResponseRedirect (reverse ''view_community_news''
                    [(''slug'', community_slug c), (''news_slug'', post_slug object)])), db'))"
    using assms
    by (simp add: AddCommunityNewsView_def mixin_defs form_defs url_defs Let_def)
  have edit_news: "EditCommunityNewsView_check_permissions db req = Inr (c, True) \<Longrightarrow>
          get_object post_slug (news db) ''news_slug'' req = Inr old \<Longrightarrow>
          valid db (ModelFormMixin_get_form_kwargs req (Some old)) \<Longrightarrow>
            (\<exists>saved db'.
               EditNewsForm_save db (ModelFormMixin_get_form_kwargs req (Some old))
                 = Inr (saved, db') \<and>
               EditCommunityNewsView valid db req =
                 (Inr (HttpResponseRedirect (reverse ''view_community_news''
                    [(''slug'', community_slug c), (''news_slug'', post_slug saved)])), db'))"
    using assms
    by (simp add: EditCommunityNewsView_def mixin_defs form_defs url_defs Let_def)
  have delete_news: "DeleteCommunityNewsView_check_permissions db req = Inr (c, True) \<Longrightarrow>
          get_object post_slug (news db) ''news_slug'' req = Inr old \<Longrightarrow>
            DeleteCommunityNewsView db req =
              (Inr (HttpResponseRedirect (reverse ''view_community_news_list''
                 [(''slug'', community_slug c)])), News_delete old db)"
    using assms
    by (simp add: DeleteCommunityNewsView_def mixin_defs form_defs url_defs Let_def)
  have add_resource: "AddCommunityResourceView_check_permissions db req = Inr (c, True) \<Longrightarrow>
          valid db (AddCommunityResourceView_get_form_kwargs c req) \<Longrightarrow>
            (\<exists>object db'.
               AddResourceForm_save db (AddCommunityResourceView_get_form_kwargs c req)
                 = Inr (object, db') \<and>
               AddCommunityResourceView valid db req =
                 (Inr (HttpResponseRedirect (reverse ''view_community_resource''
                    [(''slug'', community_slug c), (''resource_slug'', post_slug object)])),
                  db'))"
    using assms
    by (simp add: AddCommunityResourceView_def mixin_defs form_defs url_defs Let_def)
  from add_news edit_news delete_news add_resource show ?thesis by blast
qed

theorem success_redirects_witness:
  "AddCommunityNewsView always_valid example_db
       (example_request POST manager_user [''slug'' \<mapsto> ''systers''])
     = (Inr (HttpResponseRedirect (reverse ''view_community_news''
          [(''slug'', ''systers''), (''news_slug'', ''launch'')])),
        example_db\<lparr>news := [news_a, news_b,
          \<lparr>post_pk = 3, post_slug = ''launch'', post_title = ''Launch'',
           post_content = ''Today'', post_community = 1, post_author = 8\<rparr>]\<rparr>) \<and>
   fst (EditCommunityNewsView always_valid example_db
       (example_request POST manager_user
          [''slug'' \<mapsto> ''systers'', ''news_slug'' \<mapsto> ''welcome'']))
     = Inr (HttpResponseRedirect (reverse ''view_community_news''
          [(''slug'', ''systers''), (''news_slug'', ''launch'')])) \<and>
   DeleteCommunityNewsView example_db
       (example_request POST manager_user
          [''slug'' \<mapsto> ''systers'', ''news_slug'' \<mapsto> ''welcome''])
     = (Inr (HttpResponseRedirect (reverse ''view_community_news_list''
          [(''slug'', ''systers'')])), example_db\<lparr>news := [news_b]\<rparr>) \<and>
   fst (AddCommunityResourceView always_valid example_db
       (example_request POST manager_user [''slug'' \<mapsto> ''systers'']))
     = Inr (HttpResponseRedirect (reverse ''view_community_resource''
          [(''slug'', ''systers''), (''resource_slug'', ''launch'')]))"
proof -
  let ?add = "example_request POST manager_user [''slug'' \<mapsto> ''systers'']"
  let ?edit = "example_request POST manager_user
                 [''slug'' \<mapsto> ''systers'', ''news_slug'' \<mapsto> ''welcome'']"
  have a: "is_authenticated (request_user ?add)" "request_method ?add = POST"
    by (simp_all add: fixture_defs)
  have e: "is_authenticated (request_user ?edit)" "request_method ?edit = POST"
    by (simp_all add: fixture_defs)
  have checks:
    "AddCommunityNewsView_check_permissions example_db ?add = Inr (community_a, True)"
    "EditCommunityNewsView_check_permissions example_db ?edit = Inr (community_a, True)"
    "DeleteCommunityNewsView_check_permissions example_db ?edit = Inr (community_a, True)"
    "AddCommunityResourceView_check_permissions example_db ?add = Inr (community_a, True)"
    by (simp_all add: check_defs get_object_or_404_def has_perm_def fixture_defs)
  have old: "get_object post_slug (news example_db) ''news_slug'' ?edit = Inr news_a"
    by (simp add: get_object_def get_object_or_404_def fixture_defs)
  have v: "always_valid db kw" for db kw by (simp add: always_valid_def)
  have saves:
    "AddNewsForm_save example_db (AddCommunityNewsView_get_form_kwargs community_a ?add)
       = Inr (\<lparr>post_pk = 3, post_slug = ''launch'', post_title = ''Launch'',
               post_content = ''Today'', post_community = 1, post_author = 8\<rparr>,
              example_db\<lparr>news := [news_a, news_b,
                \<lparr>post_pk = 3, post_slug = ''launch'', post_title = ''Launch'',
                 post_content = ''Today'', post_community = 1, post_author = 8\<rparr>]\<rparr>)"
    "\<exists>db'. EditNewsForm_save example_db (ModelFormMixin_get_form_kwargs ?edit (Some news_a))
       = Inr (news_a\<lparr>post_slug := ''launch'', post_title := ''Launch'',
                     post_content := ''Today''\<rparr>, db')"
    "\<exists>r db'. AddResourceForm_save example_db
         (AddCommunityResourceView_get_form_kwargs community_a ?add) = Inr (r, db') \<and>
       post_slug r = ''launch''"
    by (simp_all add: form_defs new_pk_def fixture_defs Let_def)
  have del: "News_delete news_a example_db = example_db\<lparr>news := [news_b]\<rparr>"
    by (simp add: News_delete_def fixture_defs)
  have slug: "community_slug community_a = ''systers''" by (simp add: fixture_defs)
  note add_thm = success_redirects [OF a, of example_db community_a always_valid news_a]
  note edit_thm = success_redirects [OF e, of example_db community_a always_valid news_a]
  have c1: "AddCommunityNewsView always_valid example_db ?add
     = (Inr (HttpResponseRedirect (reverse ''view_community_news''
          [(''slug'', ''systers''), (''news_slug'', ''launch'')])),
        example_db\<lparr>news := [news_a, news_b,
          \<lparr>post_pk = 3, post_slug = ''launch'', post_title = ''Launch'',
           post_content = ''Today'', post_community = 1, post_author = 8\<rparr>]\<rparr>)"
    using add_thm checks(1) v saves(1) slug by simp
  have c2: "fst (EditCommunityNewsView always_valid example_db ?edit)
     = Inr (HttpResponseRedirect (reverse ''view_community_news''
          [(''slug'', ''systers''), (''news_slug'', ''launch'')]))"
    using edit_thm checks(2) old v saves(2) slug by auto
  have c3: "DeleteCommunityNewsView example_db ?edit
     = (Inr (HttpResponseRedirect (reverse ''view_community_news_list''
          [(''slug'', ''systers'')])), example_db\<lparr>news := [news_b]\<rparr>)"
    using edit_thm checks(3) old del slug by simp
  have c4: "fst (AddCommunityResourceView always_valid example_db ?add)
     = Inr (HttpResponseRedirect (reverse ''view_community_resource''
          [(''slug'', ''systers''), (''resource_slug'', ''launch'')]))"
    using add_thm checks(4) v saves(3) slug by auto
  from c1 c2 c3 c4 show ?thesis by blast
qed

section \<open>A community that does not exist\<close>

text \<open>
  C5, as amended. When no community has the slug of the URL, a GET request to a list or
  detail view, and any request of an authenticated user to a mutating view, ends in
  \<^verbatim>\<open>Http404\<close> and leaves the database as it was.
\<close>

theorem missing_community_404:
  assumes "kwargs req ''slug'' = Some s"
    and "filter (\<lambda>c. community_slug c = s) (communities db) = []"
  shows "(request_method req = GET \<longrightarrow>
            CommunityNewsListView mixin_ctx db req = (Inl Http404, db) \<and>
            CommunityNewsView mixin_ctx db req = (Inl Http404, db) \<and>
            CommunityResourceListView mixin_ctx db req = (Inl Http404, db) \<and>
            CommunityResourceView mixin_ctx db req = (Inl Http404, db)) \<and>
         (is_authenticated (request_user req) \<longrightarrow>
            AddCommunityNewsView valid db req = (Inl Http404, db) \<and>
            EditCommunityNewsView valid db req = (Inl Http404, db) \<and>
            DeleteCommunityNewsView db req = (Inl Http404, db) \<and>
            AddCommunityResourceView valid db req = (Inl Http404, db))"
proof -
  have lookup: "get_object community_slug (communities db) ''slug'' req = Inl Http404"
    using assms by (simp add: get_object_def get_object_or_404_missing)
  have reads: "request_method req = GET \<Longrightarrow>
            CommunityNewsListView mixin_ctx db req = (Inl Http404, db) \<and>
            CommunityNewsView mixin_ctx db req = (Inl Http404, db) \<and>
            CommunityResourceListView mixin_ctx db req = (Inl Http404, db) \<and>
            CommunityResourceView mixin_ctx db req = (Inl Http404, db)"
    using lookup by (simp add: read_defs)
  have writes: "is_authenticated (request_user req) \<Longrightarrow>
            AddCommunityNewsView valid db req = (Inl Http404, db) \<and>
            EditCommunityNewsView valid db req = (Inl Http404, db) \<and>
            DeleteCommunityNewsView db req = (Inl Http404, db) \<and>
            AddCommunityResourceView valid db req = (Inl Http404, db)"
    using check_permissions_missing [OF assms]
    by (simp add: view_defs mixin_defs)
  from reads writes show ?thesis by blast
qed

theorem missing_community_404_witness:
  "filter (\<lambda>c. community_slug c = ''nowhere'') (communities example_db) = [] \<and>
   CommunityNewsListView no_mixins example_db
       (example_request GET anonymous_user [''slug'' \<mapsto> ''nowhere''])
     = (Inl Http404, example_db) \<and>
   CommunityNewsView no_mixins example_db
       (example_request GET anonymous_user [''slug'' \<mapsto> ''nowhere''])
     = (Inl Http404, example_db) \<and>
   CommunityResourceListView no_mixins example_db
       (example_request GET anonymous_user [''slug'' \<mapsto> ''nowhere''])
     = (Inl Http404, example_db) \<and>
   CommunityResourceView no_mixins example_db
       (example_request GET anonymous_user [''slug'' \<mapsto> ''nowhere''])
     = (Inl Http404, example_db) \<and>
   AddCommunityNewsView always_valid example_db
       (example_request POST manager_user [''slug'' \<mapsto> ''nowhere''])
     = (Inl Http404, example_db) \<and>
   EditCommunityNewsView always_valid example_db
       (example_request POST manager_user [''slug'' \<mapsto> ''nowhere''])
     = (Inl Http404, example_db) \<and>
   DeleteCommunityNewsView example_db
       (example_request POST manager_user [''slug'' \<mapsto> ''nowhere''])
     = (Inl Http404, example_db) \<and>
   AddCommunityResourceView always_valid example_db
       (example_request POST manager_user [''slug'' \<mapsto> ''nowhere''])
     = (Inl Http404, example_db)"
proof -
  let ?r = "example_request GET anonymous_user [''slug'' \<mapsto> ''nowhere'']"
  let ?w = "example_request POST manager_user [''slug'' \<mapsto> ''nowhere'']"
  have none: "filter (\<lambda>c. community_slug c = ''nowhere'') (communities example_db) = []"
    by (simp add: fixture_defs)
  have r: "kwargs ?r ''slug'' = Some ''nowhere''" "request_method ?r = GET"
    by (simp_all add: fixture_defs)
  have w: "kwargs ?w ''slug'' = Some ''nowhere''" "is_authenticated (request_user ?w)"
    by (simp_all add: fixture_defs)
  from missing_community_404 [OF r(1) none, of no_mixins always_valid]
    missing_community_404 [OF w(1) none, of no_mixins always_valid] r(2) w(2) none
  show ?thesis by simp
qed

text \<open>
  C5 as stated covers every request. An anonymous visitor never reaches the community lookup
  of a mutating view: \<^verbatim>\<open>LoginRequiredMixin\<close> answers first, with
  \<^verbatim>\<open>PermissionDenied\<close>.
\<close>

theorem missing_community_404_counterexample:
  "filter (\<lambda>c. community_slug c = ''nowhere'') (communities example_db) = [] \<and>
   AddCommunityNewsView always_valid example_db
       (example_request POST anonymous_user [''slug'' \<mapsto> ''nowhere''])
     = (Inl PermissionDenied, example_db)"
  by (simp add: AddCommunityNewsView_def LoginRequiredMixin_dispatch_def fixture_defs)

text \<open>
  C10, as amended. In every mutating view \<^verbatim>\<open>check_permissions\<close> looks the community up
  before it evaluates the permission string: with no community of that slug it raises
  \<^verbatim>\<open>Http404\<close> whoever the user is, and the request of every authenticated user ends in
  404; and whenever it returns an answer, the community it stored is the one the slug names
  and the answer is \<^verbatim>\<open>has_perm\<close> evaluated on that community.
\<close>

theorem lookup_before_permission:
  assumes "kwargs req ''slug'' = Some s"
  shows "(filter (\<lambda>c. community_slug c = s) (communities db) = [] \<longrightarrow>
            AddCommunityNewsView_check_permissions db req = Inl Http404 \<and>
            EditCommunityNewsView_check_permissions db req = Inl Http404 \<and>
            DeleteCommunityNewsView_check_permissions db req = Inl Http404 \<and>
            AddCommunityResourceView_check_permissions db req = Inl Http404 \<and>
            (is_authenticated (request_user req) \<longrightarrow>
               fst (AddCommunityNewsView valid db req) = Inl Http404 \<and>
               fst (EditCommunityNewsView valid db req) = Inl Http404 \<and>
               fst (DeleteCommunityNewsView db req) = Inl Http404 \<and>
               fst (AddCommunityResourceView valid db req) = Inl Http404)) \<and>
         (AddCommunityNewsView_check_permissions db req = Inr (c, b) \<longrightarrow>
            get_object_or_404 community_slug (communities db) s = Inr c \<and>
            b = has_perm (request_user req) ''add_community_news'' c) \<and>
         (EditCommunityNewsView_check_permissions db req = Inr (c, b) \<longrightarrow>
            get_object_or_404 community_slug (communities db) s = Inr c \<and>
            b = has_perm (request_user req) ''change_community_news'' c) \<and>
         (DeleteCommunityNewsView_check_permissions db req = Inr (c, b) \<longrightarrow>
            get_object_or_404 community_slug (communities db) s = Inr c \<and>
            b = has_perm (request_user req) ''delete_community_news'' c) \<and>
         (AddCommunityResourceView_check_permissions db req = Inr (c, b) \<longrightarrow>
            get_object_or_404 community_slug (communities db) s = Inr c \<and>
            b = has_perm (request_user req) ''add_community_resource'' c)"
proof -
  have missing: "filter (\<lambda>c. community_slug c = s) (communities db) = [] \<Longrightarrow>
            AddCommunityNewsView_check_permissions db req = Inl Http404 \<and>
            EditCommunityNewsView_check_permissions db req = Inl Http404 \<and>
            DeleteCommunityNewsView_check_permissions db req = Inl Http404 \<and>
            AddCommunityResourceView_check_permissions db req = Inl Http404"
    using check_permissions_missing [OF assms] by simp
  have views: "filter (\<lambda>c. community_slug c = s) (communities db) = [] \<Longrightarrow>
            is_authenticated (request_user req) \<Longrightarrow>
               fst (AddCommunityNewsView valid db req) = Inl Http404 \<and>
               fst (EditCommunityNewsView valid db req) = Inl Http404 \<and>
               fst (DeleteCommunityNewsView db req) = Inl Http404 \<and>
               fst (AddCommunityResourceView valid db req) = Inl Http404"
    using check_permissions_missing [OF assms]
    by (simp add: view_defs mixin_defs)
  from missing views check_permissions_result [OF assms, of db c b]
  show ?thesis by blast
qed

theorem lookup_before_permission_witness:
  "filter (\<lambda>c. community_slug c = ''nowhere'') (communities example_db) = [] \<and>
   AddCommunityNewsView_check_permissions example_db
       (example_request POST admin_user [''slug'' \<mapsto> ''nowhere'']) = Inl Http404 \<and>
   fst (AddCommunityNewsView always_valid example_db
       (example_request POST admin_user [''slug'' \<mapsto> ''nowhere''])) = Inl Http404 \<and>
   fst (DeleteCommunityNewsView example_db
       (example_request POST admin_user [''slug'' \<mapsto> ''nowhere''])) = Inl Http404 \<and>
   EditCommunityNewsView_check_permissions example_db
       (example_request POST manager_user [''slug'' \<mapsto> ''systers''])
     = Inr (community_a, True) \<and>
   get_object_or_404 community_slug (communities example_db) ''systers'' = Inr community_a \<and>
   has_perm manager_user ''change_community_news'' community_a"
proof -
  let ?missing = "example_request POST admin_user [''slug'' \<mapsto> ''nowhere'']"
  let ?found = "example_request POST manager_user [''slug'' \<mapsto> ''systers'']"
  have none: "filter (\<lambda>c. community_slug c = ''nowhere'') (communities example_db) = []"
    by (simp add: fixture_defs)
  have m: "kwargs ?missing ''slug'' = Some ''nowhere''"
    "is_authenticated (request_user ?missing)"
    by (simp_all add: fixture_defs)
  have f: "kwargs ?found ''slug'' = Some ''systers''" "request_user ?found = manager_user"
    by (simp_all add: fixture_defs)
  have chk: "EditCommunityNewsView_check_permissions example_db ?found
               = Inr (community_a, True)"
    by (simp add: check_defs get_object_or_404_def has_perm_def fixture_defs)
  from lookup_before_permission [OF m(1), of example_db always_valid community_a True]
    none m(2)
  have first: "AddCommunityNewsView_check_permissions example_db ?missing = Inl Http404 \<and>
    fst (AddCommunityNewsView always_valid example_db ?missing) = Inl Http404 \<and>
    fst (DeleteCommunityNewsView example_db ?missing) = Inl Http404"
    by simp
  from lookup_before_permission [OF f(1), of example_db always_valid community_a True] chk f(2)
  have second: "get_object_or_404 community_slug (communities example_db) ''systers''
                  = Inr community_a \<and>
                has_perm manager_user ''change_community_news'' community_a"
    by simp
  from none first chk second show ?thesis by blast
qed

text \<open>
  C10 as stated has the request end in 404 for every user. For the anonymous user it ends in
  \<^verbatim>\<open>PermissionDenied\<close>, since \<^verbatim>\<open>check_permissions\<close> is not reached.
\<close>

theorem lookup_before_permission_counterexample:
  "filter (\<lambda>c. community_slug c = ''nowhere'') (communities example_db) = [] \<and>
   fst (DeleteCommunityNewsView example_db
       (example_request POST anonymous_user
          [''slug'' \<mapsto> ''nowhere'', ''news_slug'' \<mapsto> ''welcome'']))
     = Inl PermissionDenied"
  by (simp add: DeleteCommunityNewsView_def LoginRequiredMixin_dispatch_def fixture_defs)

section \<open>The detail views\<close>

text \<open>
  C1, as amended. When a detail view renders, the URL has a community slug and a post slug,
  exactly one community has the first and exactly one row of the view's table (news for
  \<^verbatim>\<open>CommunityNewsView\<close>, resources for \<^verbatim>\<open>CommunityResourceView\<close>) has the second; the
  context holds that community under \<^verbatim>\<open>community\<close>, that row under \<^verbatim>\<open>post\<close> and the
  post type under \<^verbatim>\<open>post_type\<close>. The post is looked up by its slug alone.
\<close>

theorem detail_views_post:
  "(rendered (CommunityNewsView mixin_ctx db req) ''post'' = Some v \<longrightarrow>
      (\<exists>s ns c n.
         kwargs req ''slug'' = Some s \<and> kwargs req ''news_slug'' = Some ns \<and>
         filter (\<lambda>x. community_slug x = s) (communities db) = [c] \<and>
         filter (\<lambda>x. post_slug x = ns) (news db) = [n] \<and>
         v = PostV n \<and>
         rendered (CommunityNewsView mixin_ctx db req) ''community'' = Some (CommunityV c) \<and>
         rendered (CommunityNewsView mixin_ctx db req) ''post_type'' = Some (StrV ''news''))) \<and>
   (rendered (CommunityResourceView mixin_ctx db req) ''post'' = Some w \<longrightarrow>
      (\<exists>s rs c r.
         kwargs req ''slug'' = Some s \<and> kwargs req ''resource_slug'' = Some rs \<and>
         filter (\<lambda>x. community_slug x = s) (communities db) = [c] \<and>
         filter (\<lambda>x. post_slug x = rs) (resources db) = [r] \<and>
         w = PostV r \<and>
         rendered (CommunityResourceView mixin_ctx db req) ''community''
           = Some (CommunityV c) \<and>
         rendered (CommunityResourceView mixin_ctx db req) ''post_type''
           = Some (StrV ''resource'')))"
proof -
  have n: "\<exists>s ns c n.
         kwargs req ''slug'' = Some s \<and> kwargs req ''news_slug'' = Some ns \<and>
         filter (\<lambda>x. community_slug x = s) (communities db) = [c] \<and>
         filter (\<lambda>x. post_slug x = ns) (news db) = [n] \<and>
         v = PostV n \<and>
         rendered (CommunityNewsView mixin_ctx db req) ''community'' = Some (CommunityV c) \<and>
         rendered (CommunityNewsView mixin_ctx db req) ''post_type'' = Some (StrV ''news'')"
    if h: "rendered (CommunityNewsView mixin_ctx db req) ''post'' = Some v"
  proof -
    from rendered_Some [OF h] obtain t ctx db' where
      out: "CommunityNewsView mixin_ctx db req = (Inr (TemplateResponse t ctx), db')"
      and v: "ctx ''post'' = Some v"
      by blast
    from out have "\<exists>s ns c n.
         kwargs req ''slug'' = Some s \<and> kwargs req ''news_slug'' = Some ns \<and>
         filter (\<lambda>x. community_slug x = s) (communities db) = [c] \<and>
         filter (\<lambda>x. post_slug x = ns) (news db) = [n] \<and>
         ctx ''community'' = Some (CommunityV c) \<and>
         ctx ''post'' = Some (PostV n) \<and>
         ctx ''post_type'' = Some (StrV ''news'')"
      by (auto simp: detail_defs get_object_def Let_def
          split: http_method.splits sum.splits option.splits
          dest!: get_object_or_404_Inr)
    with v show ?thesis by (auto simp: out)
  qed
  have r: "\<exists>s rs c r.
         kwargs req ''slug'' = Some s \<and> kwargs req ''resource_slug'' = Some rs \<and>
         filter (\<lambda>x. community_slug x = s) (communities db) = [c] \<and>
         filter (\<lambda>x. post_slug x = rs) (resources db) = [r] \<and>
         w = PostV r \<and>
         rendered (CommunityResourceView mixin_ctx db req) ''community''
           = Some (CommunityV c) \<and>
         rendered (CommunityResourceView mixin_ctx db req) ''post_type''
           = Some (StrV ''resource'')"
    if h: "rendered (CommunityResourceView mixin_ctx db req) ''post'' = Some w"
  proof -
    from rendered_Some [OF h] obtain t ctx db' where
      out: "CommunityResourceView mixin_ctx db req = (Inr (TemplateResponse t ctx), db')"
      and w: "ctx ''post'' = Some w"
      by blast
    from out have "\<exists>s rs c r.
         kwargs req ''slug'' = Some s \<and> kwargs req ''resource_slug'' = Some rs \<and>
         filter (\<lambda>x. community_slug x = s) (communities db) = [c] \<and>
         filter (\<lambda>x. post_slug x = rs) (resources db) = [r] \<and>
         ctx ''community'' = Some (CommunityV c) \<and>
         ctx ''post'' = Some (PostV r) \<and>
         ctx ''post_type'' = Some (StrV ''resource'')"
      by (auto simp: detail_defs get_object_def Let_def
          split: http_method.splits sum.splits option.splits
          dest!: get_object_or_404_Inr)
    with w show ?thesis by (auto simp: out)
  qed
  from n r show ?thesis by blast
qed

theorem detail_views_post_witness:
  "rendered (CommunityNewsView no_mixins example_db
       (example_request GET anonymous_user
          [''slug'' \<mapsto> ''outreach'', ''news_slug'' \<mapsto> ''meetup''])) ''post''
     = Some (PostV news_b) \<and>
   filter (\<lambda>x. post_slug x = ''meetup'') (news example_db) = [news_b] \<and>
   rendered (CommunityNewsView no_mixins example_db
       (example_request GET anonymous_user
          [''slug'' \<mapsto> ''outreach'', ''news_slug'' \<mapsto> ''meetup''])) ''community''
     = Some (CommunityV community_b) \<and>
   rendered (CommunityResourceView no_mixins example_db
       (example_request GET anonymous_user
          [''slug'' \<mapsto> ''outreach'', ''resource_slug'' \<mapsto> ''faq''])) ''post''
     = Some (PostV resource_b) \<and>
   filter (\<lambda>x. post_slug x = ''faq'') (resources example_db) = [resource_b] \<and>
   rendered (CommunityResourceView no_mixins example_db
       (example_request GET anonymous_user
          [''slug'' \<mapsto> ''outreach'', ''resource_slug'' \<mapsto> ''faq''])) ''community''
     = Some (CommunityV community_b)"
proof -
  let ?n = "example_request GET anonymous_user
              [''slug'' \<mapsto> ''outreach'', ''news_slug'' \<mapsto> ''meetup'']"
  let ?r = "example_request GET anonymous_user
              [''slug'' \<mapsto> ''outreach'', ''resource_slug'' \<mapsto> ''faq'']"
  have pn: "rendered (CommunityNewsView no_mixins example_db ?n) ''post''
              = Some (PostV news_b)"
    by (simp add: detail_defs get_object_def get_object_or_404_def fixture_defs)
  have pr: "rendered (CommunityResourceView no_mixins example_db ?r) ''post''
              = Some (PostV resource_b)"
    by (simp add: detail_defs get_object_def get_object_or_404_def fixture_defs)
  have kn: "kwargs ?n ''slug'' = Some ''outreach''" "kwargs ?n ''news_slug'' = Some ''meetup''"
    by (simp_all add: fixture_defs)
  have kr: "kwargs ?r ''slug'' = Some ''outreach''"
    "kwargs ?r ''resource_slug'' = Some ''faq''"
    by (simp_all add: fixture_defs)
  have fc: "filter (\<lambda>x. community_slug x = ''outreach'') (communities example_db)
              = [community_b]"
    by (simp add: fixture_defs)
  from detail_views_post [of no_mixins example_db ?n "PostV news_b" "PostV resource_b"] pn kn fc
  have n: "filter (\<lambda>x. post_slug x = ''meetup'') (news example_db) = [news_b] \<and>
    rendered (CommunityNewsView no_mixins example_db ?n) ''community''
      = Some (CommunityV community_b)"
    by auto
  from detail_views_post [of no_mixins example_db ?r "PostV news_b" "PostV resource_b"] pr kr fc
  have r: "filter (\<lambda>x. post_slug x = ''faq'') (resources example_db) = [resource_b] \<and>
    rendered (CommunityResourceView no_mixins example_db ?r) ''community''
      = Some (CommunityV community_b)"
    by auto
  from pn n pr r show ?thesis by blast
qed

text \<open>
  C1 as stated has the post belong to the community of the URL. Asking for a news post of the
  second community under the slug of the first renders it all the same.
\<close>

theorem detail_views_post_counterexample:
  "rendered (CommunityNewsView no_mixins example_db
       (example_request GET anonymous_user
          [''slug'' \<mapsto> ''systers'', ''news_slug'' \<mapsto> ''meetup''])) ''community''
     = Some (CommunityV community_a) \<and>
   rendered (CommunityNewsView no_mixins example_db
       (example_request GET anonymous_user
          [''slug'' \<mapsto> ''systers'', ''news_slug'' \<mapsto> ''meetup''])) ''post''
     = Some (PostV news_b) \<and>
   post_community news_b \<noteq> community_pk community_a"
  by (simp add: detail_defs get_object_def get_object_or_404_def fixture_defs)

section \<open>What a saved record holds\<close>

text \<open>
  C3, as amended. A successful submission to an add view appends one record to the view's
  table whose community is the community of the URL and whose author is the requesting user;
  neither field is part of the submitted data. A successful submission to the edit view
  replaces the record it fetched by one with the same primary key, community and author.
\<close>

theorem saved_record_fields:
  "(AddCommunityNewsView valid db req = (Inr (HttpResponseRedirect u), db') \<longrightarrow>
      (\<exists>s c object.
         kwargs req ''slug'' = Some s \<and>
         get_object_or_404 community_slug (communities db) s = Inr c \<and>
         db' = db\<lparr>news := news db @ [object]\<rparr> \<and>
         post_community object = community_pk c \<and>
         post_author object = user_pk (request_user req))) \<and>
   (AddCommunityResourceView valid db req = (Inr (HttpResponseRedirect u), db') \<longrightarrow>
      (\<exists>s c object.
         kwargs req ''slug'' = Some s \<and>
         get_object_or_404 community_slug (communities db) s = Inr c \<and>
         db' = db\<lparr>resources := resources db @ [object]\<rparr> \<and>
         post_community object = community_pk c \<and>
         post_author object = user_pk (request_user req))) \<and>
   (EditCommunityNewsView valid db req = (Inr (HttpResponseRedirect u), db') \<longrightarrow>
      (\<exists>old saved.
         get_object post_slug (news db) ''news_slug'' req = Inr old \<and>
         db' = db\<lparr>news := map (\<lambda>n. if post_pk n = post_pk old then saved else n) (news db)\<rparr> \<and>
         post_pk saved = post_pk old \<and>
         post_community saved = post_community old \<and>
         post_author saved = post_author old))"
proof -
  have a: "AddCommunityNewsView valid db req = (Inr (HttpResponseRedirect u), db') \<Longrightarrow>
      (\<exists>s c object.
         kwargs req ''slug'' = Some s \<and>
         get_object_or_404 community_slug (communities db) s = Inr c \<and>
         db' = db\<lparr>news := news db @ [object]\<rparr> \<and>
         post_community object = community_pk c \<and>
         post_author object = user_pk (request_user req))"
    by (auto simp: AddCommunityNewsView_def mixin_defs check_defs form_defs Let_def
        split: if_splits sum.splits option.splits http_method.splits)
  have r: "AddCommunityResourceView valid db req = (Inr (HttpResponseRedirect u), db') \<Longrightarrow>
      (\<exists>s c object.
         kwargs req ''slug'' = Some s \<and>
         get_object_or_404 community_slug (communities db) s = Inr c \<and>
         db' = db\<lparr>resources := resources db @ [object]\<rparr> \<and>
         post_community object = community_pk c \<and>
         post_author object = user_pk (request_user req))"
    by (auto simp: AddCommunityResourceView_def mixin_defs check_defs form_defs Let_def
        split: if_splits sum.splits option.splits http_method.splits)
  have e: "\<exists>old saved.
         get_object post_slug (news db) ''news_slug'' req = Inr old \<and>
         db' = db\<lparr>news := map (\<lambda>n. if post_pk n = post_pk old then saved else n) (news db)\<rparr> \<and>
         post_pk saved = post_pk old \<and>
         post_community saved = post_community old \<and>
         post_author saved = post_author old"
    if h: "EditCommunityNewsView valid db req = (Inr (HttpResponseRedirect u), db')"
  proof -
    from h obtain old where old: "get_object post_slug (news db) ''news_slug'' req = Inr old"
      and db': "db' = db\<lparr>news := map (\<lambda>n. if post_pk n = post_pk old
                  then old\<lparr>post_slug := data_slug (POST_data req),
                           post_title := data_title (POST_data req),
                           post_content := data_content (POST_data req)\<rparr>
                  else n) (news db)\<rparr>"
      by (auto simp: EditCommunityNewsView_def mixin_defs check_defs form_defs Let_def
          split: if_splits sum.splits option.splits http_method.splits)
    let ?saved = "old\<lparr>post_slug := data_slug (POST_data req),
                      post_title := data_title (POST_data req),
                      post_content := data_content (POST_data req)\<rparr>"
    have "get_object post_slug (news db) ''news_slug'' req = Inr old \<and>
         db' = db\<lparr>news := map (\<lambda>n. if post_pk n = post_pk old then ?saved else n) (news db)\<rparr> \<and>
         post_pk ?saved = post_pk old \<and>
         post_community ?saved = post_community old \<and>
         post_author ?saved = post_author old"
      using old db' by simp
    then show ?thesis by blast
  qed
  from a r e show ?thesis by blast
qed

theorem saved_record_fields_witness:
  "AddCommunityNewsView always_valid example_db
       (example_request POST manager_user [''slug'' \<mapsto> ''systers''])
     = (Inr (HttpResponseRedirect (reverse ''view_community_news''
          [(''slug'', ''systers''), (''news_slug'', ''launch'')])),
        example_db\<lparr>news := news example_db @ [launched]\<rparr>) \<and>
   post_community launched = community_pk community_a \<and>
   post_author launched = user_pk manager_user \<and>
   AddCommunityResourceView always_valid example_db
       (example_request POST manager_user [''slug'' \<mapsto> ''systers''])
     = (Inr (HttpResponseRedirect (reverse ''view_community_resource''
          [(''slug'', ''systers''), (''resource_slug'', ''launch'')])),
        example_db\<lparr>resources := resources example_db @ [launched]\<rparr>) \<and>
   EditCommunityNewsView always_valid example_db
       (example_request POST manager_user
          [''slug'' \<mapsto> ''systers'', ''news_slug'' \<mapsto> ''welcome''])
     = (Inr (HttpResponseRedirect (reverse ''view_community_news''
          [(''slug'', ''systers''), (''news_slug'', ''launch'')])),
        example_db\<lparr>news := [edited, news_b]\<rparr>) \<and>
   post_community edited = post_community news_a \<and>
   post_author edited = post_author news_a"
proof -
  let ?add = "example_request POST manager_user [''slug'' \<mapsto> ''systers'']"
  let ?edit = "example_request POST manager_user
                 [''slug'' \<mapsto> ''systers'', ''news_slug'' \<mapsto> ''welcome'']"
  let ?u = "reverse ''view_community_news''
              [(''slug'', ''systers''), (''news_slug'', ''launch'')]"
  let ?ur = "reverse ''view_community_resource''
              [(''slug'', ''systers''), (''resource_slug'', ''launch'')]"
  have an: "AddCommunityNewsView always_valid example_db ?add
              = (Inr (HttpResponseRedirect ?u),
                 example_db\<lparr>news := news example_db @ [launched]\<rparr>)"
    by (simp add: AddCommunityNewsView_def mixin_defs check_defs form_defs url_defs
        get_object_or_404_def has_perm_def new_pk_def fixture_defs launched_def Let_def)
  have ar: "AddCommunityResourceView always_valid example_db ?add
              = (Inr (HttpResponseRedirect ?ur),
                 example_db\<lparr>resources := resources example_db @ [launched]\<rparr>)"
    by (simp add: AddCommunityResourceView_def mixin_defs check_defs form_defs url_defs
        get_object_or_404_def has_perm_def new_pk_def fixture_defs launched_def Let_def)
  have ed: "EditCommunityNewsView always_valid example_db ?edit
              = (Inr (HttpResponseRedirect ?u), example_db\<lparr>news := [edited, news_b]\<rparr>)"
    by (simp add: EditCommunityNewsView_def mixin_defs check_defs form_defs url_defs
        get_object_def get_object_or_404_def has_perm_def fixture_defs edited_def Let_def)
  have u: "request_user ?add = manager_user" by (simp add: fixture_defs)
  have found: "get_object_or_404 community_slug (communities example_db) ''systers''
                 = Inr community_a"
    by (simp add: get_object_or_404_def fixture_defs)
  have kw: "kwargs ?add ''slug'' = Some ''systers''" by (simp add: fixture_defs)
  have old: "get_object post_slug (news example_db) ''news_slug'' ?edit = Inr news_a"
    by (simp add: get_object_def get_object_or_404_def fixture_defs)
  from saved_record_fields [of always_valid example_db ?add ?u
      "example_db\<lparr>news := news example_db @ [launched]\<rparr>"] an
  obtain s c object where
    "kwargs ?add ''slug'' = Some s"
    "get_object_or_404 community_slug (communities example_db) s = Inr c"
    "example_db\<lparr>news := news example_db @ [launched]\<rparr>
       = example_db\<lparr>news := news example_db @ [object]\<rparr>"
    "post_community object = community_pk c"
    "post_author object = user_pk (request_user ?add)"
    by blast
  with kw found u have fields: "post_community launched = community_pk community_a"
    "post_author launched = user_pk manager_user"
    by (auto simp: fixture_defs launched_def)
  have kept: "post_community edited = post_community news_a"
    "post_author edited = post_author news_a"
    by (simp_all add: edited_def)
  from an fields ar ed kept show ?thesis by blast
qed

text \<open>
  C3 as stated has the edit view fill in the requesting user as the author. The manager
  edits a post written by somebody else, and the saved record keeps its author.
\<close>

theorem saved_record_fields_counterexample:
  "fst (EditCommunityNewsView always_valid example_db
       (example_request POST manager_user
          [''slug'' \<mapsto> ''systers'', ''news_slug'' \<mapsto> ''welcome'']))
     = Inr (HttpResponseRedirect (reverse ''view_community_news''
          [(''slug'', ''systers''), (''news_slug'', ''launch'')])) \<and>
   news (snd (EditCommunityNewsView always_valid example_db
       (example_request POST manager_user
          [''slug'' \<mapsto> ''systers'', ''news_slug'' \<mapsto> ''welcome''])))
     = [news_a\<lparr>post_slug := ''launch'', post_title := ''Launch'', post_content := ''Today''\<rparr>,
        news_b] \<and>
   post_author
       (news_a\<lparr>post_slug := ''launch'', post_title := ''Launch'', post_content := ''Today''\<rparr>)
     \<noteq> user_pk (request_user (example_request POST manager_user
          [''slug'' \<mapsto> ''systers'', ''news_slug'' \<mapsto> ''welcome'']))"
  by (simp add: EditCommunityNewsView_def mixin_defs check_defs form_defs url_defs
      get_object_def get_object_or_404_def has_perm_def fixture_defs Let_def)

section \<open>News and resources in parallel\<close>

text \<open>
  C2, as amended. The module has a news view and a resource view for list, detail and create,
  and each pair is one view instantiated at the two post types, which differ in the table,
  the \<^verbatim>\<open>post_type\<close> context variable, the \<^verbatim>\<open>page_slug\<close> attribute, the URL keyword of
  the post's slug, the permission string, the name of the redirect URL and the form that
  saves. Update and delete views exist for news.
\<close>

theorem parallel_views:
  "CommunityNewsListView = PostListView news_kind \<and>
   CommunityResourceListView = PostListView resource_kind \<and>
   CommunityNewsView = PostDetailView news_kind \<and>
   CommunityResourceView = PostDetailView resource_kind \<and>
   AddCommunityNewsView = AddPostView news_kind \<and>
   AddCommunityResourceView = AddPostView resource_kind \<and>
   provides ListView News \<and> provides ListView Resource \<and>
   provides DetailView News \<and> provides DetailView Resource \<and>
   provides CreateView News \<and> provides CreateView Resource \<and>
   provides UpdateView News \<and> provides DeleteView News"
proof -
  have lists: "CommunityNewsListView = PostListView news_kind"
    "CommunityResourceListView = PostListView resource_kind"
    by (intro ext, simp add: list_defs kind_defs Let_def
        split: http_method.splits sum.splits)+
  have details: "CommunityNewsView = PostDetailView news_kind"
    "CommunityResourceView = PostDetailView resource_kind"
    by (intro ext, simp add: detail_defs kind_defs Let_def
        split: http_method.splits sum.splits option.splits)+
  have add_news: "AddCommunityNewsView = AddPostView news_kind"
  proof -
    have chk: "AddCommunityNewsView_check_permissions =
        (\<lambda>db req. case kwargs req ''slug'' of
              None \<Rightarrow> Inl KeyError
            | Some s \<Rightarrow>
                (case get_object_or_404 community_slug (communities db) s of
                   Inl e \<Rightarrow> Inl e
                 | Inr c \<Rightarrow> Inr (c, has_perm (request_user req) ''add_community_news'' c)))"
      by (intro ext) (simp add: check_defs)
    have kw: "AddCommunityNewsView_get_form_kwargs c =
        (\<lambda>req. (ModelFormMixin_get_form_kwargs req None)
                  \<lparr>kw_author := Some (request_user req), kw_community := Some c\<rparr>)" for c
      by (intro ext) (simp add: AddCommunityNewsView_get_form_kwargs_def)
    have url: "AddCommunityNewsView_get_success_url c =
        (\<lambda>object. reverse ''view_community_news''
           [(''slug'', community_slug c), (''news_slug'', post_slug object)])" for c
      by (intro ext) (simp add: url_defs)
    have ctx: "AddCommunityNewsView_get_context_data c =
        (\<lambda>super_ctx. super_ctx(''community'' \<mapsto> CommunityV c,
                                 ''post_type'' \<mapsto> StrV ''news''))" for c
      by (intro ext) (simp add: AddCommunityNewsView_get_context_data_def)
    show ?thesis
      by (intro ext) (simp add: AddCommunityNewsView_def AddPostView_def news_kind_def
          chk kw url ctx cong: sum.case_cong option.case_cong)
  qed
  have add_resource: "AddCommunityResourceView = AddPostView resource_kind"
  proof -
    have chk: "AddCommunityResourceView_check_permissions =
        (\<lambda>db req. case kwargs req ''slug'' of
              None \<Rightarrow> Inl KeyError
            | Some s \<Rightarrow>
                (case get_object_or_404 community_slug (communities db) s of
                   Inl e \<Rightarrow> Inl e
                 | Inr c \<Rightarrow>
                     Inr (c, has_perm (request_user req) ''add_community_resource'' c)))"
      by (intro ext) (simp add: check_defs)
    have kw: "AddCommunityResourceView_get_form_kwargs c =
        (\<lambda>req. (ModelFormMixin_get_form_kwargs req None)
                  \<lparr>kw_author := Some (request_user req), kw_community := Some c\<rparr>)" for c
      by (intro ext) (simp add: AddCommunityResourceView_get_form_kwargs_def)
    have url: "AddCommunityResourceView_get_success_url c =
        (\<lambda>object. reverse ''view_community_resource''
           [(''slug'', community_slug c), (''resource_slug'', post_slug object)])" for c
      by (intro ext) (simp add: url_defs)
    have ctx: "AddCommunityResourceView_get_context_data c =
        (\<lambda>super_ctx. super_ctx(''community'' \<mapsto> CommunityV c,
                                 ''post_type'' \<mapsto> StrV ''resource''))" for c
      by (intro ext) (simp add: AddCommunityResourceView_get_context_data_def)
    show ?thesis
      by (intro ext) (simp add: AddCommunityResourceView_def AddPostView_def
          resource_kind_def chk kw url ctx cong: sum.case_cong option.case_cong)
  qed
  note adds = add_news add_resource
  have inventory: "provides ListView News" "provides ListView Resource"
    "provides DetailView News" "provides DetailView Resource"
    "provides CreateView News" "provides CreateView Resource"
    "provides UpdateView News" "provides DeleteView News"
    by (simp_all add: provides_def module_views_def)
  from lists details adds inventory show ?thesis by blast
qed

text \<open>
  C2 as stated has a resource view for every operation. The module has none for update and
  none for delete.
\<close>

theorem parallel_views_counterexample:
  "provides UpdateView News \<and> \<not> provides UpdateView Resource \<and>
   provides DeleteView News \<and> \<not> provides DeleteView Resource"
  by (simp add: provides_def module_views_def)

end
